theory Spec2Isabelle
  imports Main "HOL-Library.Word"
begin

section \<open>The EVM JSON-RPC cache of erpc (erpc/evm\_json\_rpc\_cache.go)\<close>

text \<open>
  The cache sits between the proxy and a storage Connector. The file under study holds
  \<open>Get\<close>, \<open>Set\<close>, \<open>shouldCache\<close>, \<open>DeleteByGroupKey\<close>, \<open>shouldCacheForBlock\<close> and
  \<open>generateKeysForJsonRpcRequest\<close>, which are modelled here; \<open>NewEvmJsonRpcCache\<close>,
  \<open>WithNetwork\<close> and \<open>populateDefaults\<close> only build the cache and are left out.
  Everything the modelled functions call in packages \<open>common\<close> and \<open>data\<close> and on the
  \<open>Network\<close> is outside the file: those callees are parameters of the model (fields of
  the objects that carry them, or of the record \<open>externals\<close>), so every theorem holds for
  whatever they compute.

  Go conventions kept by the model:
  \<^item> a call returning \<open>(v, err)\<close> is a pair whose second part is \<open>error option\<close>
    (\<open>None\<close> is \<open>nil\<close>); the code reads both parts in places, so they stay a pair;
  \<^item> a pointer that can be \<open>nil\<close> where the code tests or reads it is an \<open>option\<close>;
    reading a field through \<open>nil\<close> is the outcome \<open>Panic\<close>;
  \<^item> \<open>int64\<close> is a 64-bit word, compared with zero as a signed number;
  \<^item> the logger, the context and the write timeout are left out.
\<close>

subsection \<open>Data\<close>

type_synonym int64 = "64 word"

datatype error = ErrorMsg string

datatype 'a outcome = Return 'a | Panic

text \<open>\<open>common.JsonRpcRequest\<close> and \<open>common.JsonRpcResponse\<close>: the fields the cache reads and
  writes. \<open>Result\<close> is a \<open>json.RawMessage\<close>, \<open>nil\<close> or the raw bytes.\<close>

record JsonRpcRequest =
  JSONRPC :: string
  ID :: string
  Method :: string

record JsonRpcResponse =
  JSONRPC :: string
  ID :: string
  Error :: "error option"
  Result :: "string option"

text \<open>\<open>Network.EvmIsBlockFinalized\<close>, the finality oracle. The code asks it at most once
  in a run of \<open>Get\<close> or \<open>Set\<close>, and what it answers depends on the state of the chain at
  that time: a \<open>Network\<close> value holds the answers at the time of one run, and two runs at
  different times are given two such values.\<close>

record Network =
  EvmIsBlockFinalized :: "int64 \<Rightarrow> bool \<times> error option"

text \<open>The upstream descriptor: \<open>ups.Config().Evm.Syncing\<close>, where \<open>Evm\<close> and \<open>Syncing\<close>
  are pointers the code tests; \<open>Config()\<close> is taken to return a configuration, as the
  code reads it without a test.\<close>

record EvmUpstreamConfig =
  Syncing :: "bool option"

record UpstreamConfig =
  Evm :: "EvmUpstreamConfig option"

record Upstream =
  Config :: UpstreamConfig

text \<open>\<open>common.NormalizedRequest\<close>, seen through the methods the cache calls on it: each
  field is what the method of that name returns.\<close>

record NormalizedRequest =
  req_JsonRpcRequest :: "JsonRpcRequest option \<times> error option"
  req_NetworkId :: string
  req_CacheHash :: "string \<times> error option"
  req_EvmBlockNumber :: "int64 \<times> error option"
  req_Network :: "Network option"

text \<open>\<open>common.NormalizedResponse\<close>: what the builder calls of \<open>Get\<close> set.\<close>

record NormalizedResponse =
  request :: "NormalizedRequest option"
  fromCache :: bool
  jsonRpcResponse :: "JsonRpcResponse option"

text \<open>Modelled from the spec: the builder of \<open>common.NormalizedResponse\<close>
  (\<open>NewNormalizedResponse\<close>, \<open>WithRequest\<close>, \<open>WithFromCache\<close>, \<open>WithJsonRpcResponse\<close>) is not
  in the file; the read path "reconstructs a full JSON-RPC response envelope reusing the
  original request's jsonrpc and id fields and marking the response as cache-derived", so
  each setter stores its argument in the field of its name.\<close>

definition NewNormalizedResponse :: NormalizedResponse where
  "NewNormalizedResponse = \<lparr>request = None, fromCache = False, jsonRpcResponse = None\<rparr>"

definition WithRequest :: "NormalizedRequest \<Rightarrow> NormalizedResponse \<Rightarrow> NormalizedResponse" where
  "WithRequest req r = r\<lparr>request := Some req\<rparr>"

definition WithFromCache :: "bool \<Rightarrow> NormalizedResponse \<Rightarrow> NormalizedResponse" where
  "WithFromCache b r = r\<lparr>fromCache := b\<rparr>"

definition WithJsonRpcResponse :: "JsonRpcResponse \<Rightarrow> NormalizedResponse \<Rightarrow> NormalizedResponse" where
  "WithJsonRpcResponse jrr r = r\<lparr>jsonRpcResponse := Some jrr\<rparr>"

text \<open>The callees of package \<open>common\<close> (and \<open>sonic.Marshal\<close>) that are functions of their
  arguments. The methods of a response take the pointer, which may be \<open>nil\<close> where the code
  calls them on an unchecked pointer.\<close>

record externals =
  resp_JsonRpcResponse :: "NormalizedResponse option \<Rightarrow> JsonRpcResponse option \<times> error option"
  resp_IsObjectNull :: "NormalizedResponse \<Rightarrow> bool"
  resp_IsResultEmptyish :: "NormalizedResponse \<Rightarrow> bool"
  resp_Upstream :: "NormalizedResponse option \<Rightarrow> Upstream option"
  ExtractEvmBlockReferenceFromRequest :: "JsonRpcRequest \<Rightarrow> string \<times> int64 \<times> error option"
  ExtractEvmBlockReference ::
    "JsonRpcRequest \<Rightarrow> JsonRpcResponse option \<Rightarrow> string \<times> int64 \<times> error option"
  ExtractEvmBlockReferenceFromResponse ::
    "JsonRpcRequest \<Rightarrow> JsonRpcResponse option \<Rightarrow> string \<times> int64 \<times> error option"
  Marshal :: "string option \<Rightarrow> string \<times> error option"

text \<open>Modelled from the spec: the index names \<open>data.ConnectorMainIndex\<close> and
  \<open>data.ConnectorReverseIndex\<close> are declared outside the file; the Connector has "two
  lookup indexes (primary and reverse)".\<close>

datatype ConnectorIndex = ConnectorMainIndex | ConnectorReverseIndex

text \<open>\<open>data.Connector\<close>, the interface that data/mock\_connector.go implements: the
  operations the cache uses, over a storage state \<open>'s\<close> that \<open>Get\<close>, \<open>Set\<close> and \<open>Delete\<close>
  may change.\<close>

record 's Connector =
  Connector_Get :: "'s \<Rightarrow> ConnectorIndex \<Rightarrow> string \<Rightarrow> string \<Rightarrow> (string \<times> error option) \<times> 's"
  Connector_Set :: "'s \<Rightarrow> string \<Rightarrow> string \<Rightarrow> string \<Rightarrow> error option \<times> 's"
  Connector_Delete :: "'s \<Rightarrow> ConnectorIndex \<Rightarrow> string \<Rightarrow> string \<Rightarrow> error option \<times> 's"
  Connector_HasTTL :: "'s \<Rightarrow> string \<Rightarrow> bool"
  Connector_IsMethodIgnored :: "'s \<Rightarrow> string \<Rightarrow> bool"

text \<open>\<open>EvmJsonRpcCache\<close> as \<open>WithNetwork\<close> returns it: a connector and a network (the
  logger is left out).\<close>

record 's EvmJsonRpcCache =
  conn :: "'s Connector"
  network :: Network

subsection \<open>The calls a run makes\<close>

text \<open>A run of \<open>Get\<close>, \<open>Set\<close> or \<open>DeleteByGroupKey\<close> threads the storage state and
  records, in order, each call it makes to the connector, the block-reference resolver,
  the eligibility policy, the finality oracle and the key generator. The record of calls
  is bookkeeping: no function of the model reads it, and it is what lets a property say
  that a call was made, or was not.\<close>

datatype event =
    Call_IsMethodIgnored string
  | Call_HasTTL string
  | Call_ExtractEvmBlockReferenceFromRequest
  | Call_ExtractEvmBlockReference
  | Call_shouldCache
  | Call_EvmIsBlockFinalized int64
  | Call_generateKeysForJsonRpcRequest string
  | Call_Get ConnectorIndex string string
  | Call_Set string string string
  | Call_Delete ConnectorIndex string string

record 's world =
  store :: 's
  trace :: "event list"

definition emit :: "event \<Rightarrow> 's world \<Rightarrow> 's world" where
  "emit e w = w\<lparr>trace := trace w @ [e]\<rparr>"

definition conn_IsMethodIgnored :: "'s EvmJsonRpcCache \<Rightarrow> string \<Rightarrow> 's world \<Rightarrow> bool \<times> 's world" where
  "conn_IsMethodIgnored c m w =
     (Connector_IsMethodIgnored (conn c) (store w) m, emit (Call_IsMethodIgnored m) w)"

definition conn_HasTTL :: "'s EvmJsonRpcCache \<Rightarrow> string \<Rightarrow> 's world \<Rightarrow> bool \<times> 's world" where
  "conn_HasTTL c m w = (Connector_HasTTL (conn c) (store w) m, emit (Call_HasTTL m) w)"

definition conn_Get ::
  "'s EvmJsonRpcCache \<Rightarrow> ConnectorIndex \<Rightarrow> string \<Rightarrow> string \<Rightarrow> 's world
     \<Rightarrow> (string \<times> error option) \<times> 's world" where
  "conn_Get c index groupKey requestKey w =
     (case Connector_Get (conn c) (store w) index groupKey requestKey of
        (r, s) \<Rightarrow> (r, emit (Call_Get index groupKey requestKey) (w\<lparr>store := s\<rparr>)))"

definition conn_Set ::
  "'s EvmJsonRpcCache \<Rightarrow> string \<Rightarrow> string \<Rightarrow> string \<Rightarrow> 's world \<Rightarrow> error option \<times> 's world" where
  "conn_Set c pk rk v w =
     (case Connector_Set (conn c) (store w) pk rk v of
        (r, s) \<Rightarrow> (r, emit (Call_Set pk rk v) (w\<lparr>store := s\<rparr>)))"

definition conn_Delete ::
  "'s EvmJsonRpcCache \<Rightarrow> ConnectorIndex \<Rightarrow> string \<Rightarrow> string \<Rightarrow> 's world
     \<Rightarrow> error option \<times> 's world" where
  "conn_Delete c index groupKey requestKey w =
     (case Connector_Delete (conn c) (store w) index groupKey requestKey of
        (r, s) \<Rightarrow> (r, emit (Call_Delete index groupKey requestKey) (w\<lparr>store := s\<rparr>)))"

subsection \<open>shouldCacheForBlock, generateKeysForJsonRpcRequest, DeleteByGroupKey\<close>

definition shouldCacheForBlock ::
  "'s EvmJsonRpcCache \<Rightarrow> int64 \<Rightarrow> 's world \<Rightarrow> (bool \<times> error option) \<times> 's world" where
  "shouldCacheForBlock c blockNumber w =
     (EvmIsBlockFinalized (network c) blockNumber, emit (Call_EvmIsBlockFinalized blockNumber) w)"

definition generateKeysForJsonRpcRequest ::
  "NormalizedRequest \<Rightarrow> string \<Rightarrow> string \<times> string \<times> error option" where
  "generateKeysForJsonRpcRequest req blockRef =
     (case req_CacheHash req of
        (cacheKey, Some err) \<Rightarrow> ('''', '''', Some err)
      | (cacheKey, None) \<Rightarrow>
          if blockRef \<noteq> '''' then (req_NetworkId req @ '':'' @ blockRef, cacheKey, None)
          else (req_NetworkId req @ '':nil'', cacheKey, None))"

fun DeleteByGroupKey ::
  "'s EvmJsonRpcCache \<Rightarrow> string list \<Rightarrow> 's world \<Rightarrow> error option \<times> 's world" where
  "DeleteByGroupKey c [] w = (None, w)"
| "DeleteByGroupKey c (groupKey # groupKeys) w =
     (case conn_Delete c ConnectorMainIndex groupKey '''' w of
        (Some err, w') \<Rightarrow> (Some err, w')
      | (None, w') \<Rightarrow> DeleteByGroupKey c groupKeys w')"

subsection \<open>shouldCache\<close>

text \<open>The first condition of \<open>shouldCache\<close> (lines 222 to 227), with Go's short-circuit
  evaluation: the response is \<open>nil\<close>, null or empty-ish, or the parsed response is \<open>nil\<close>,
  has no result, or carries an error.\<close>

definition noResultOrError ::
  "externals \<Rightarrow> NormalizedResponse option \<Rightarrow> JsonRpcResponse option \<Rightarrow> bool" where
  "noResultOrError ext resp rpcResp =
     (case resp of
        None \<Rightarrow> True
      | Some r \<Rightarrow>
          resp_IsObjectNull ext r \<or> resp_IsResultEmptyish ext r \<or>
          (case rpcResp of
             None \<Rightarrow> True
           | Some jrr \<Rightarrow> Result jrr = None \<or> Error jrr \<noteq> None))"

text \<open>Lines 228 to 247: the way out for a response without result, or with an error, that
  comes from a synced upstream. The two tests read \<open>err != nil\<close>, as the source does.\<close>

definition syncedAndFinalized ::
  "externals \<Rightarrow> NormalizedRequest \<Rightarrow> NormalizedResponse option \<Rightarrow> bool \<times> error option" where
  "syncedAndFinalized ext req resp =
     (case resp_Upstream ext resp of
        None \<Rightarrow> (False, None)
      | Some ups \<Rightarrow>
          (case Evm (Config ups) of
             None \<Rightarrow> (False, None)
           | Some evm \<Rightarrow>
               (case Syncing evm of
                  Some False \<Rightarrow>
                    (case req_EvmBlockNumber req of
                       (blkNum, err) \<Rightarrow>
                         if err \<noteq> None \<and> 0 <s blkNum then
                           (case req_Network req of
                              None \<Rightarrow> (False, None)
                            | Some ntw \<Rightarrow>
                                (case EvmIsBlockFinalized ntw blkNum of
                                   (fin, err) \<Rightarrow>
                                     if err \<noteq> None \<and> fin then (fin, None) else (False, None)))
                         else (False, None))
                | _ \<Rightarrow> (False, None))))"

definition shouldCache ::
  "externals \<Rightarrow> NormalizedRequest \<Rightarrow> NormalizedResponse option \<Rightarrow> JsonRpcRequest
     \<Rightarrow> JsonRpcResponse option \<Rightarrow> bool \<times> error option" where
  "shouldCache ext req resp rpcReq rpcResp =
     (if noResultOrError ext resp rpcResp then syncedAndFinalized ext req resp
      else if Method rpcReq = ''eth_getTransactionByHash'' \<or>
              Method rpcReq = ''eth_getTransactionReceipt'' \<or>
              Method rpcReq = ''eth_getTransactionByBlockHashAndIndex'' \<or>
              Method rpcReq = ''eth_getTransactionByBlockNumberAndIndex'' then
        (case ExtractEvmBlockReferenceFromResponse ext rpcReq rpcResp of
           (blkRef, blkNum, err) \<Rightarrow>
             if err \<noteq> None then (False, err)
             else if blkRef = '''' \<and> blkNum = 0 then (False, None)
             else (True, None))
      else (True, None))"

subsection \<open>Get\<close>

text \<open>Lines 97 to 126 of \<open>Get\<close>: the keys, the lookup in the index the block reference
  selects, and the response built from the stored string.\<close>

definition Get_lookup ::
  "'s EvmJsonRpcCache \<Rightarrow> NormalizedRequest \<Rightarrow> JsonRpcRequest \<Rightarrow> string \<Rightarrow> 's world
     \<Rightarrow> (NormalizedResponse option \<times> error option) outcome \<times> 's world" where
  "Get_lookup c req rpcReq blockRef w =
     (case generateKeysForJsonRpcRequest req blockRef of
        (groupKey, requestKey, err) \<Rightarrow>
          let w1 = emit (Call_generateKeysForJsonRpcRequest blockRef) w in
          if err \<noteq> None then (Return (None, err), w1)
          else
            (case (if blockRef \<noteq> ''*''
                   then conn_Get c ConnectorMainIndex groupKey requestKey w1
                   else conn_Get c ConnectorReverseIndex groupKey requestKey w1) of
               ((resultString, err), w2) \<Rightarrow>
                 if err \<noteq> None then (Return (None, err), w2)
                 else if resultString = [CHR 0x22, CHR 0x22] \<or> resultString = ''null'' \<or>
                         resultString = ''[]'' \<or> resultString = ''{}''
                 then (Return (None, None), w2)
                 else
                   let jrr = \<lparr>JSONRPC = JsonRpcRequest.JSONRPC rpcReq,
                              ID = JsonRpcRequest.ID rpcReq,
                              Error = None,
                              Result = Some resultString\<rparr>
                   in (Return
                         (Some (WithJsonRpcResponse jrr
                                  (WithFromCache True (WithRequest req NewNormalizedResponse))),
                          None), w2)))"

text \<open>Lines 70 to 96 of \<open>Get\<close>, then \<open>Get_lookup\<close>.\<close>

definition Get ::
  "'s EvmJsonRpcCache \<Rightarrow> externals \<Rightarrow> NormalizedRequest \<Rightarrow> 's world
     \<Rightarrow> (NormalizedResponse option \<times> error option) outcome \<times> 's world" where
  "Get c ext req w =
     (case req_JsonRpcRequest req of
        (_, Some err) \<Rightarrow> (Return (None, Some err), w)
      | (None, None) \<Rightarrow> (Panic, w)
      | (Some rpcReq, None) \<Rightarrow>
          (case conn_IsMethodIgnored c (Method rpcReq) w of
             (ignored, w1) \<Rightarrow>
               if ignored then (Return (None, None), w1)
               else
                 (case conn_HasTTL c (Method rpcReq) w1 of
                    (hasTTL, w2) \<Rightarrow>
                      (case ExtractEvmBlockReferenceFromRequest ext rpcReq of
                         (blockRef, blockNumber, err) \<Rightarrow>
                           let w3 = emit Call_ExtractEvmBlockReferenceFromRequest w2 in
                           if err \<noteq> None then (Return (None, err), w3)
                           else if blockRef = '''' \<and> blockNumber = 0 \<and> \<not> hasTTL
                           then (Return (None, None), w3)
                           else if blockNumber \<noteq> 0 then
                             (case shouldCacheForBlock c blockNumber w3 of
                                ((s, err), w4) \<Rightarrow>
                                  if err = None \<and> \<not> s then (Return (None, None), w4)
                                  else Get_lookup c req rpcReq blockRef w4)
                           else Get_lookup c req rpcReq blockRef w3))))"

subsection \<open>Set\<close>

text \<open>Lines 192 to 212 of \<open>Set\<close>: the keys, the serialised result and the write. The log
  call of line 197 reads \<open>rpcResp.Result\<close>, which panics on a \<open>nil\<close> response.\<close>

definition Set_write ::
  "'s EvmJsonRpcCache \<Rightarrow> externals \<Rightarrow> NormalizedRequest \<Rightarrow> JsonRpcResponse option \<Rightarrow> string
     \<Rightarrow> 's world \<Rightarrow> error option outcome \<times> 's world" where
  "Set_write c ext req rpcResp blockRef w =
     (case generateKeysForJsonRpcRequest req blockRef of
        (pk, rk, err) \<Rightarrow>
          let w1 = emit (Call_generateKeysForJsonRpcRequest blockRef) w in
          if err \<noteq> None then (Return err, w1)
          else
            (case rpcResp of
               None \<Rightarrow> (Panic, w1)
             | Some jrr \<Rightarrow>
                 (case Marshal ext (Result jrr) of
                    (resultBytes, err) \<Rightarrow>
                      if err \<noteq> None then (Return err, w1)
                      else
                        (case conn_Set c pk rk resultBytes w1 of
                           (err, w2) \<Rightarrow> (Return err, w2)))))"

text \<open>Lines 129 to 190 of \<open>Set\<close>, then \<open>Set_write\<close>. The log call of line 181 reads
  \<open>rpcResp.Result\<close> too.\<close>

definition Set ::
  "'s EvmJsonRpcCache \<Rightarrow> externals \<Rightarrow> NormalizedRequest \<Rightarrow> NormalizedResponse option
     \<Rightarrow> 's world \<Rightarrow> error option outcome \<times> 's world" where
  "Set c ext req resp w =
     (case req_JsonRpcRequest req of
        (_, Some err) \<Rightarrow> (Return (Some err), w)
      | (rpcReqPtr, None) \<Rightarrow>
          (case resp_JsonRpcResponse ext resp of
             (_, Some err) \<Rightarrow> (Return (Some err), w)
           | (rpcResp, None) \<Rightarrow>
               (case rpcReqPtr of
                  None \<Rightarrow> (Panic, w)
                | Some rpcReq \<Rightarrow>
                    (case conn_IsMethodIgnored c (Method rpcReq) w of
                       (ignored, w1) \<Rightarrow>
                         if ignored then (Return None, w1)
                         else
                           (case shouldCache ext req resp rpcReq rpcResp of
                              (eligible, err) \<Rightarrow>
                                let w2 = emit Call_shouldCache w1 in
                                if \<not> eligible \<or> err \<noteq> None then (Return err, w2)
                                else
                                  (case ExtractEvmBlockReference ext rpcReq rpcResp of
                                     (blockRef, blockNumber, err) \<Rightarrow>
                                       let w3 = emit Call_ExtractEvmBlockReference w2 in
                                       if err \<noteq> None then (Return err, w3)
                                       else
                                         (case conn_HasTTL c (Method rpcReq) w3 of
                                            (hasTTL, w4) \<Rightarrow>
                                              if blockRef = '''' \<and> blockNumber = 0 \<and> \<not> hasTTL
                                              then (Return None, w4)
                                              else if \<not> hasTTL then
                                                if blockRef = '''' \<and> blockNumber = 0
                                                then (Return None, w4)
                                                else if 0 <s blockNumber then
                                                  (case shouldCacheForBlock c blockNumber w4 of
                                                     ((s, e), w5) \<Rightarrow>
                                                       if \<not> s \<or> e \<noteq> None then
                                                         (case rpcResp of
                                                            None \<Rightarrow> (Panic, w5)
                                                          | Some _ \<Rightarrow> (Return e, w5))
                                                       else Set_write c ext req rpcResp blockRef w5)
                                                else Set_write c ext req rpcResp blockRef w4
                                              else Set_write c ext req rpcResp blockRef w4)))))))"

subsection \<open>An in-memory connector and sample inputs\<close>

text \<open>The concrete runs below use a connector that keeps its entries in an association
  list, a policy registry fixed at construction, a network whose oracle gives one answer,
  a resolver that gives one answer before the call and one after it, and responses that
  carry their parsed form. The main index of the connector finds an entry by group key
  and request key; its reverse index finds it by the request key alone, whatever the
  block scope in the group key.\<close>

type_synonym memStore = "((string \<times> string) \<times> string) list"

definition memConnector :: "string list \<Rightarrow> string list \<Rightarrow> memStore Connector" where
  "memConnector ttlMethods ignoredMethods =
     \<lparr>Connector_Get = (\<lambda>s index pk rk.
         (case (if index = ConnectorMainIndex then map_of s (pk, rk)
                else map_of (map (\<lambda>e. (snd (fst e), snd e)) s) rk) of
            None \<Rightarrow> (('''', Some (ErrorMsg ''record not found'')), s)
          | Some v \<Rightarrow> ((v, None), s))),
      Connector_Set = (\<lambda>s pk rk v. (None, ((pk, rk), v) # s)),
      Connector_Delete = (\<lambda>s index pk rk.
         if pk \<in> set (map (fst \<circ> fst) s) then (None, filter (\<lambda>e. fst (fst e) \<noteq> pk) s)
         else (Some (ErrorMsg ''group not found''), s)),
      Connector_HasTTL = (\<lambda>s m. m \<in> set ttlMethods),
      Connector_IsMethodIgnored = (\<lambda>s m. m \<in> set ignoredMethods)\<rparr>"

definition fixedNetwork :: "bool \<times> error option \<Rightarrow> Network" where
  "fixedNetwork answer = \<lparr>EvmIsBlockFinalized = (\<lambda>n. answer)\<rparr>"

definition memCache :: "string list \<Rightarrow> string list \<Rightarrow> bool \<times> error option \<Rightarrow> memStore EvmJsonRpcCache" where
  "memCache ttlMethods ignoredMethods answer =
     \<lparr>conn = memConnector ttlMethods ignoredMethods, network = fixedNetwork answer\<rparr>"

text \<open>The sample serialiser follows \<open>sonic.Marshal\<close> on a \<open>json.RawMessage\<close>: \<open>nil\<close>
  gives \<open>null\<close>, bytes that are JSON come back unchanged, and bytes that are not JSON
  are an error. It knows the JSON that the runs below serialise (the literals and
  strings of hexadecimal digits between quotes) and refuses everything else.\<close>

definition quoted :: "string \<Rightarrow> string" where
  "quoted s = CHR 0x22 # s @ [CHR 0x22]"

definition hexString :: "string \<Rightarrow> bool" where
  "hexString b =
     (case b of
        [] \<Rightarrow> False
      | q # rest \<Rightarrow>
          q = CHR 0x22 \<and> rest \<noteq> [] \<and> last rest = CHR 0x22 \<and>
          list_all (\<lambda>ch. ch \<in> set ''0123456789abcdefx'') (butlast rest))"

definition sampleMarshal :: "string option \<Rightarrow> string \<times> error option" where
  "sampleMarshal r =
     (case r of
        None \<Rightarrow> (''null'', None)
      | Some b \<Rightarrow>
          if b \<in> {''null'', ''true'', ''false'', ''[]'', ''{}''} \<or> hexString b then (b, None)
          else ('''', Some (ErrorMsg ''invalid character in JSON'')))"

definition sampleExternals :: "string \<times> int64 \<times> error option \<Rightarrow> externals" where
  "sampleExternals blk =
     \<lparr>resp_JsonRpcResponse =
        (\<lambda>r. case r of None \<Rightarrow> (None, None) | Some x \<Rightarrow> (jsonRpcResponse x, None)),
      resp_IsObjectNull = (\<lambda>r. jsonRpcResponse r = None),
      resp_IsResultEmptyish =
        (\<lambda>r. case jsonRpcResponse r of
               None \<Rightarrow> True
             | Some j \<Rightarrow> Result j \<in> {None, Some '''', Some ''null'', Some ''[]'', Some ''{}''}),
      resp_Upstream = (\<lambda>r. Some \<lparr>Config = \<lparr>Evm = Some \<lparr>Syncing = Some False\<rparr>\<rparr>\<rparr>),
      ExtractEvmBlockReferenceFromRequest = (\<lambda>r. blk),
      ExtractEvmBlockReference = (\<lambda>r j. blk),
      ExtractEvmBlockReferenceFromResponse = (\<lambda>r j. blk),
      Marshal = sampleMarshal\<rparr>"

definition unparsedExternals :: "string \<times> int64 \<times> error option \<Rightarrow> externals" where
  "unparsedExternals blk =
     (sampleExternals blk)
       \<lparr>resp_JsonRpcResponse := (\<lambda>r. (None, Some (ErrorMsg ''unexpected end of JSON input'')))\<rparr>"

text \<open>A resolver whose answer before the call (from the request alone) differs from its
  answer after it (from request and response).\<close>

definition splitExternals ::
  "string \<times> int64 \<times> error option \<Rightarrow> string \<times> int64 \<times> error option \<Rightarrow> externals" where
  "splitExternals before after =
     (sampleExternals after)\<lparr>ExtractEvmBlockReferenceFromRequest := (\<lambda>r. before)\<rparr>"

text \<open>The result of a lookup of a transaction that is in no block yet:
  \<open>{"blockHash":null}\<close>.\<close>

definition pendingTransaction :: string where
  "pendingTransaction = ''{'' @ quoted ''blockHash'' @ '':null}''"

definition sampleRpcRequest :: "string \<Rightarrow> string \<Rightarrow> JsonRpcRequest" where
  "sampleRpcRequest i m = \<lparr>JsonRpcRequest.JSONRPC = ''2.0'', JsonRpcRequest.ID = i, Method = m\<rparr>"

definition sampleRequest :: "string \<Rightarrow> string \<Rightarrow> int64 \<times> error option \<Rightarrow> NormalizedRequest" where
  "sampleRequest i m bn =
     \<lparr>req_JsonRpcRequest = (Some (sampleRpcRequest i m), None),
      req_NetworkId = ''evm:1'',
      req_CacheHash = (m @ '':h'', None),
      req_EvmBlockNumber = bn,
      req_Network = Some (fixedNetwork (True, None))\<rparr>"

definition sampleRpcResponse :: "string option \<Rightarrow> JsonRpcResponse" where
  "sampleRpcResponse res = \<lparr>JSONRPC = ''2.0'', ID = ''1'', Error = None, Result = res\<rparr>"

definition sampleResponse :: "string option \<Rightarrow> NormalizedResponse" where
  "sampleResponse res =
     \<lparr>request = None, fromCache = False, jsonRpcResponse = Some (sampleRpcResponse res)\<rparr>"

section \<open>Properties\<close>

subsection \<open>Runs of the parts\<close>

lemmas sample_defs = memConnector_def fixedNetwork_def memCache_def sampleExternals_def
  unparsedExternals_def sampleRpcRequest_def sampleRequest_def sampleRpcResponse_def
  sampleResponse_def splitExternals_def sampleMarshal_def hexString_def quoted_def
  pendingTransaction_def

lemmas call_defs = conn_IsMethodIgnored_def conn_HasTTL_def conn_Get_def conn_Set_def
  conn_Delete_def shouldCacheForBlock_def emit_def

text \<open>\<open>Get\<close> and \<open>Set\<close> as one chain of tests, once the outcomes of the calls have names.\<close>

lemma Get_flat:
  assumes "req_JsonRpcRequest req = (Some rpcReq, None)"
    and "ExtractEvmBlockReferenceFromRequest ext rpcReq = (blockRef, blockNumber, err)"
    and "EvmIsBlockFinalized (network c) blockNumber = (s, e)"
  shows "Get c ext req w =
    (if Connector_IsMethodIgnored (conn c) (store w) (Method rpcReq)
     then (Return (None, None), w\<lparr>trace := trace w @ [Call_IsMethodIgnored (Method rpcReq)]\<rparr>)
     else if err \<noteq> None
     then (Return (None, err), w\<lparr>trace := trace w @ [Call_IsMethodIgnored (Method rpcReq),
             Call_HasTTL (Method rpcReq), Call_ExtractEvmBlockReferenceFromRequest]\<rparr>)
     else if blockRef = '''' \<and> blockNumber = 0 \<and>
             \<not> Connector_HasTTL (conn c) (store w) (Method rpcReq)
     then (Return (None, None), w\<lparr>trace := trace w @ [Call_IsMethodIgnored (Method rpcReq),
             Call_HasTTL (Method rpcReq), Call_ExtractEvmBlockReferenceFromRequest]\<rparr>)
     else if blockNumber \<noteq> 0
     then (if e = None \<and> \<not> s
           then (Return (None, None), w\<lparr>trace := trace w @ [Call_IsMethodIgnored (Method rpcReq),
                   Call_HasTTL (Method rpcReq), Call_ExtractEvmBlockReferenceFromRequest,
                   Call_EvmIsBlockFinalized blockNumber]\<rparr>)
           else Get_lookup c req rpcReq blockRef
                  (w\<lparr>trace := trace w @ [Call_IsMethodIgnored (Method rpcReq),
                   Call_HasTTL (Method rpcReq), Call_ExtractEvmBlockReferenceFromRequest,
                   Call_EvmIsBlockFinalized blockNumber]\<rparr>))
     else Get_lookup c req rpcReq blockRef
            (w\<lparr>trace := trace w @ [Call_IsMethodIgnored (Method rpcReq),
               Call_HasTTL (Method rpcReq), Call_ExtractEvmBlockReferenceFromRequest]\<rparr>))"
  using assms by (simp add: Get_def call_defs Let_def)

lemma Set_flat:
  assumes "req_JsonRpcRequest req = (Some rpcReq, None)"
    and "resp_JsonRpcResponse ext resp = (rpcResp, None)"
    and "shouldCache ext req resp rpcReq rpcResp = (eligible, perr)"
    and "ExtractEvmBlockReference ext rpcReq rpcResp = (blockRef, blockNumber, err)"
    and "EvmIsBlockFinalized (network c) blockNumber = (s, e)"
  shows "Set c ext req resp w =
    (if Connector_IsMethodIgnored (conn c) (store w) (Method rpcReq)
     then (Return None, w\<lparr>trace := trace w @ [Call_IsMethodIgnored (Method rpcReq)]\<rparr>)
     else if \<not> eligible \<or> perr \<noteq> None
     then (Return perr,
           w\<lparr>trace := trace w @ [Call_IsMethodIgnored (Method rpcReq), Call_shouldCache]\<rparr>)
     else if err \<noteq> None
     then (Return err, w\<lparr>trace := trace w @ [Call_IsMethodIgnored (Method rpcReq),
             Call_shouldCache, Call_ExtractEvmBlockReference]\<rparr>)
     else if blockRef = '''' \<and> blockNumber = 0 \<and>
             \<not> Connector_HasTTL (conn c) (store w) (Method rpcReq)
     then (Return None, w\<lparr>trace := trace w @ [Call_IsMethodIgnored (Method rpcReq),
             Call_shouldCache, Call_ExtractEvmBlockReference, Call_HasTTL (Method rpcReq)]\<rparr>)
     else if \<not> Connector_HasTTL (conn c) (store w) (Method rpcReq) \<and> 0 <s blockNumber
     then (if \<not> s \<or> e \<noteq> None
           then (case rpcResp of None \<Rightarrow> Panic | Some _ \<Rightarrow> Return e,
                 w\<lparr>trace := trace w @ [Call_IsMethodIgnored (Method rpcReq), Call_shouldCache,
                   Call_ExtractEvmBlockReference, Call_HasTTL (Method rpcReq),
                   Call_EvmIsBlockFinalized blockNumber]\<rparr>)
           else Set_write c ext req rpcResp blockRef
                 (w\<lparr>trace := trace w @ [Call_IsMethodIgnored (Method rpcReq), Call_shouldCache,
                   Call_ExtractEvmBlockReference, Call_HasTTL (Method rpcReq),
                   Call_EvmIsBlockFinalized blockNumber]\<rparr>))
     else Set_write c ext req rpcResp blockRef
            (w\<lparr>trace := trace w @ [Call_IsMethodIgnored (Method rpcReq), Call_shouldCache,
               Call_ExtractEvmBlockReference, Call_HasTTL (Method rpcReq)]\<rparr>))"
  using assms by (simp add: Set_def call_defs Let_def split: option.splits)

text \<open>The lookup of \<open>Get\<close>, when the keys can be derived and when they cannot.\<close>

lemma Get_lookup_run:
  assumes "generateKeysForJsonRpcRequest req blockRef = (groupKey, requestKey, None)"
    and "Connector_Get (conn c) (store w)
           (if blockRef = ''*'' then ConnectorReverseIndex else ConnectorMainIndex)
           groupKey requestKey = ((v, err), s)"
  shows "Get_lookup c req rpcReq blockRef w =
           (if err \<noteq> None then Return (None, err)
            else if v \<in> {[CHR 0x22, CHR 0x22], ''null'', ''[]'', ''{}''} then Return (None, None)
            else Return (Some \<lparr>request = Some req, fromCache = True,
                   jsonRpcResponse = Some \<lparr>JSONRPC = JsonRpcRequest.JSONRPC rpcReq,
                      ID = JsonRpcRequest.ID rpcReq, Error = None, Result = Some v\<rparr>\<rparr>, None),
            \<lparr>store = s, trace = trace w @ [Call_generateKeysForJsonRpcRequest blockRef,
               Call_Get (if blockRef = ''*'' then ConnectorReverseIndex else ConnectorMainIndex)
                 groupKey requestKey]\<rparr>)"
  using assms
  by (auto simp: Get_lookup_def call_defs Let_def
      NewNormalizedResponse_def WithRequest_def WithFromCache_def WithJsonRpcResponse_def)

lemma Get_lookup_keys_error:
  assumes "generateKeysForJsonRpcRequest req blockRef = (groupKey, requestKey, Some err)"
  shows "Get_lookup c req rpcReq blockRef w =
           (Return (None, Some err),
            w\<lparr>trace := trace w @ [Call_generateKeysForJsonRpcRequest blockRef]\<rparr>)"
  using assms by (simp add: Get_lookup_def call_defs)


text \<open>The write of \<open>Set\<close>.\<close>

lemma Set_write_trace:
  "\<exists>evs. trace (snd (Set_write c ext req rpcResp blockRef w)) =
           trace w @ Call_generateKeysForJsonRpcRequest blockRef # evs \<and>
         (\<forall>i g k. Call_Get i g k \<notin> set evs \<and> Call_Delete i g k \<notin> set evs)"
  by (auto simp: Set_write_def call_defs Let_def split: prod.splits option.splits)

lemma Set_write_wrote:
  assumes "Call_Set pk rk v
             \<in> set (drop (length (trace w)) (trace (snd (Set_write c ext req rpcResp blockRef w))))"
  shows "generateKeysForJsonRpcRequest req blockRef = (pk, rk, None) \<and>
         (\<exists>jrr. rpcResp = Some jrr \<and> Marshal ext (Result jrr) = (v, None)) \<and>
         Set_write c ext req rpcResp blockRef w =
           (Return (fst (Connector_Set (conn c) (store w) pk rk v)),
            \<lparr>store = snd (Connector_Set (conn c) (store w) pk rk v),
             trace = trace w @ [Call_generateKeysForJsonRpcRequest blockRef, Call_Set pk rk v]\<rparr>)"
  using assms
  by (auto simp: Set_write_def call_defs Let_def split: prod.splits option.splits if_splits)

text \<open>The deletions of a run, and a run over two lists in a row.\<close>

lemma DeleteByGroupKey_append:
  "DeleteByGroupKey c (xs @ ys) w =
     (case DeleteByGroupKey c xs w of
        (Some err, w') \<Rightarrow> (Some err, w')
      | (None, w') \<Rightarrow> DeleteByGroupKey c ys w')"
  by (induction xs arbitrary: w) (auto split: prod.splits option.splits)

lemma DeleteByGroupKey_trace:
  "DeleteByGroupKey c ks w = (None, w1) \<Longrightarrow>
     trace w1 = trace w @ map (\<lambda>groupKey. Call_Delete ConnectorMainIndex groupKey '''') ks"
proof (induction ks arbitrary: w)
  case Nil
  then show ?case by simp
next
  case (Cons k ks)
  then show ?case
    by (auto simp: conn_Delete_def emit_def split: prod.splits option.splits)
qed

text \<open>What a run of \<open>Get\<close> or of \<open>Set\<close> did: it returned before its storage part and
  called neither the connector's \<open>Get\<close>, \<open>Set\<close> nor \<open>Delete\<close>, or it ran its storage
  part from a state with the same store.\<close>

lemma Get_cases:
  assumes "req_JsonRpcRequest req = (Some rpcReq, None)"
    and "ExtractEvmBlockReferenceFromRequest ext rpcReq = (blockRef, blockNumber, err)"
  shows "(\<exists>r evs. Get c ext req w = (Return (None, r), w\<lparr>trace := trace w @ evs\<rparr>) \<and>
            (\<forall>i g k. Call_Get i g k \<notin> set evs)) \<or>
         (\<exists>evs. Get c ext req w = Get_lookup c req rpcReq blockRef (w\<lparr>trace := trace w @ evs\<rparr>) \<and>
            (\<forall>i g k. Call_Get i g k \<notin> set evs) \<and> err = None)"
proof -
  obtain s e where o: "EvmIsBlockFinalized (network c) blockNumber = (s, e)" by (metis surj_pair)
  show ?thesis
    unfolding Get_flat[OF assms o] by auto
qed

lemma Set_cases:
  assumes "req_JsonRpcRequest req = (Some rpcReq, None)"
    and "resp_JsonRpcResponse ext resp = (rpcResp, None)"
    and "ExtractEvmBlockReference ext rpcReq rpcResp = (blockRef, blockNumber, err)"
  shows "(\<exists>r evs. Set c ext req resp w = (r, w\<lparr>trace := trace w @ evs\<rparr>) \<and>
            (\<forall>i g k. Call_Get i g k \<notin> set evs \<and> Call_Delete i g k \<notin> set evs) \<and>
            (\<forall>p k v. Call_Set p k v \<notin> set evs)) \<or>
         (\<exists>evs. Set c ext req resp w =
                  Set_write c ext req rpcResp blockRef (w\<lparr>trace := trace w @ evs\<rparr>) \<and>
            (\<forall>i g k. Call_Get i g k \<notin> set evs \<and> Call_Delete i g k \<notin> set evs) \<and>
            (\<forall>p k v. Call_Set p k v \<notin> set evs) \<and> err = None \<and>
            \<not> Connector_IsMethodIgnored (conn c) (store w) (Method rpcReq) \<and>
            shouldCache ext req resp rpcReq rpcResp = (True, None) \<and>
            \<not> (blockRef = '''' \<and> blockNumber = 0 \<and>
               \<not> Connector_HasTTL (conn c) (store w) (Method rpcReq)) \<and>
            (\<not> Connector_HasTTL (conn c) (store w) (Method rpcReq) \<and> 0 <s blockNumber \<longrightarrow>
               EvmIsBlockFinalized (network c) blockNumber = (True, None)))"
proof -
  obtain s e where o: "EvmIsBlockFinalized (network c) blockNumber = (s, e)" by (metis surj_pair)
  obtain eligible perr where p: "shouldCache ext req resp rpcReq rpcResp = (eligible, perr)"
    by (metis surj_pair)
  show ?thesis
    unfolding Set_flat[OF assms(1,2) p assms(3) o] using o p by auto
qed

text \<open>A run of \<open>Set\<close> that called the connector's \<open>Set\<close>: which keys and value it wrote,
  what it returned, and the tests it had passed on the way.\<close>

lemma Set_wrote:
  assumes "req_JsonRpcRequest req = (Some rpcReq, None)"
    and "resp_JsonRpcResponse ext resp = (rpcResp, None)"
    and "ExtractEvmBlockReference ext rpcReq rpcResp = (blockRef, blockNumber, err)"
    and "Call_Set pk rk v \<in> set (drop (length (trace w)) (trace (snd (Set c ext req resp w))))"
  shows "generateKeysForJsonRpcRequest req blockRef = (pk, rk, None) \<and>
         (\<exists>jrr. rpcResp = Some jrr \<and> Marshal ext (Result jrr) = (v, None)) \<and>
         fst (Set c ext req resp w) = Return (fst (Connector_Set (conn c) (store w) pk rk v)) \<and>
         store (snd (Set c ext req resp w)) = snd (Connector_Set (conn c) (store w) pk rk v) \<and>
         err = None \<and>
         \<not> Connector_IsMethodIgnored (conn c) (store w) (Method rpcReq) \<and>
         \<not> (blockRef = '''' \<and> blockNumber = 0 \<and>
            \<not> Connector_HasTTL (conn c) (store w) (Method rpcReq)) \<and>
         (\<not> Connector_HasTTL (conn c) (store w) (Method rpcReq) \<and> 0 <s blockNumber \<longrightarrow>
            EvmIsBlockFinalized (network c) blockNumber = (True, None))"
proof -
  from Set_cases[OF assms(1-3), of c w] show ?thesis
  proof (elim disjE exE conjE)
    fix r evs
    assume "Set c ext req resp w = (r, w\<lparr>trace := trace w @ evs\<rparr>)"
      "\<forall>p k v. Call_Set p k v \<notin> set evs"
    with assms(4) show ?thesis by simp
  next
    fix evs
    let ?w = "w\<lparr>trace := trace w @ evs\<rparr>"
    assume s: "Set c ext req resp w = Set_write c ext req rpcResp blockRef ?w"
      and n: "\<forall>p k v. Call_Set p k v \<notin> set evs"
      and g: "\<forall>i g k. Call_Get i g k \<notin> set evs \<and> Call_Delete i g k \<notin> set evs"
      and rest: "err = None" "\<not> Connector_IsMethodIgnored (conn c) (store w) (Method rpcReq)"
        "\<not> (blockRef = '''' \<and> blockNumber = 0 \<and>
            \<not> Connector_HasTTL (conn c) (store w) (Method rpcReq))"
        "\<not> Connector_HasTTL (conn c) (store w) (Method rpcReq) \<and> 0 <s blockNumber \<longrightarrow>
               EvmIsBlockFinalized (network c) blockNumber = (True, None)"
    obtain more where m: "trace (snd (Set_write c ext req rpcResp blockRef ?w)) =
        trace ?w @ Call_generateKeysForJsonRpcRequest blockRef # more"
      using Set_write_trace[of c ext req rpcResp blockRef ?w] by blast
    from assms(4) s m n
    have "Call_Set pk rk v \<in> set (Call_generateKeysForJsonRpcRequest blockRef # more)" by simp
    then have "Call_Set pk rk v
        \<in> set (drop (length (trace ?w)) (trace (snd (Set_write c ext req rpcResp blockRef ?w))))"
      using m by simp
    from Set_write_wrote[OF this] s rest g show ?thesis by auto
  qed
qed


lemma syncedAndFinalized_needs_errors:
  assumes "fst (syncedAndFinalized ext req resp)"
  shows "snd (req_EvmBlockNumber req) \<noteq> None \<and> 0 <s fst (req_EvmBlockNumber req) \<and>
         (\<exists>ntw. req_Network req = Some ntw \<and>
            fst (EvmIsBlockFinalized ntw (fst (req_EvmBlockNumber req))) \<and>
            snd (EvmIsBlockFinalized ntw (fst (req_EvmBlockNumber req))) \<noteq> None)"
  using assms
  by (auto simp: syncedAndFinalized_def split: option.splits prod.splits bool.splits if_splits)

text \<open>Lines 233 and 234: when \<open>req.EvmBlockNumber()\<close> returns no error, a response
  without result (or with an error) is never eligible.\<close>

lemma shouldCache_resolved_block_number:
  assumes "noResultOrError ext resp rpcResp" and "snd (req_EvmBlockNumber req) = None"
  shows "shouldCache ext req resp rpcReq rpcResp = (False, None)"
  using assms
  by (auto simp: shouldCache_def syncedAndFinalized_def split: option.splits prod.splits bool.splits)

text \<open>Every hit of \<open>Get\<close> is marked as coming from the cache and carries a stored
  string other than the four empty ones.\<close>

lemma Get_hit_not_empty:
  assumes "fst (Get c ext req w) = Return (Some r, e)"
  shows "\<exists>jrr v. jsonRpcResponse r = Some jrr \<and> Result jrr = Some v \<and>
           v \<notin> {[CHR 0x22, CHR 0x22], ''null'', ''[]'', ''{}''} \<and> e = None \<and> fromCache r"
proof -
  have "\<exists>rpcReq. req_JsonRpcRequest req = (Some rpcReq, None)"
    using assms by (auto simp: Get_def split: prod.splits option.splits)
  then obtain rpcReq where p: "req_JsonRpcRequest req = (Some rpcReq, None)" by blast
  obtain blockRef blockNumber err
    where x: "ExtractEvmBlockReferenceFromRequest ext rpcReq = (blockRef, blockNumber, err)"
    by (metis prod_cases3)
  from Get_cases[OF p x, of c w] show ?thesis
  proof (elim disjE exE conjE)
    fix r0 evs
    assume "Get c ext req w = (Return (None, r0), w\<lparr>trace := trace w @ evs\<rparr>)"
    with assms show ?thesis by simp
  next
    fix evs
    let ?w = "w\<lparr>trace := trace w @ evs\<rparr>"
    assume g: "Get c ext req w = Get_lookup c req rpcReq blockRef ?w"
    obtain gk rk e0 where k: "generateKeysForJsonRpcRequest req blockRef = (gk, rk, e0)"
      by (metis prod_cases3)
    show ?thesis
    proof (cases e0)
      case None
      obtain v0 er s0 where cg: "Connector_Get (conn c) (store ?w)
           (if blockRef = ''*'' then ConnectorReverseIndex else ConnectorMainIndex) gk rk
             = ((v0, er), s0)"
        by (metis surj_pair)
      from Get_lookup_run[OF k[unfolded None] cg, of rpcReq] g assms
      show ?thesis by (auto split: if_splits)
    next
      case (Some a)
      from Get_lookup_keys_error[OF k[unfolded Some], of c rpcReq ?w] g assms
      show ?thesis by auto
    qed
  qed
qed

text \<open>All the definitions a concrete run unfolds.\<close>

lemmas run_defs = Get_def Get_lookup_def Set_def Set_write_def call_defs
  generateKeysForJsonRpcRequest_def shouldCache_def noResultOrError_def
  NewNormalizedResponse_def WithRequest_def WithFromCache_def WithJsonRpcResponse_def

text \<open>The keys, from what the request's \<open>CacheHash\<close> returns.\<close>

lemma generateKeys_ok:
  "req_CacheHash req = (cacheKey, None) \<Longrightarrow>
     generateKeysForJsonRpcRequest req blockRef =
       (req_NetworkId req @ '':'' @ (if blockRef = '''' then ''nil'' else blockRef), cacheKey, None)"
  by (simp add: generateKeysForJsonRpcRequest_def)

lemma generateKeys_error:
  "req_CacheHash req = (cacheKey, Some err) \<Longrightarrow>
     generateKeysForJsonRpcRequest req blockRef = ('''', '''', Some err)"
  by (simp add: generateKeysForJsonRpcRequest_def)

text \<open>The write of \<open>Set\<close> from a parsed response, in terms of the serialiser and the
  connector.\<close>

lemma Set_write_run:
  assumes "generateKeysForJsonRpcRequest req blockRef = (pk, rk, None)"
    and "Marshal ext (Result jrr) = (bytes, merr)"
    and "Connector_Set (conn c) (store w) pk rk bytes = (e, s)"
  shows "Set_write c ext req (Some jrr) blockRef w =
           (if merr \<noteq> None
            then (Return merr, w\<lparr>trace := trace w @ [Call_generateKeysForJsonRpcRequest blockRef]\<rparr>)
            else (Return e,
                  \<lparr>store = s,
                   trace = trace w @ [Call_generateKeysForJsonRpcRequest blockRef,
                                      Call_Set pk rk bytes]\<rparr>))"
  using assms by (simp add: Set_write_def call_defs)

lemma Set_write_keys_error:
  assumes "generateKeysForJsonRpcRequest req blockRef = (pk, rk, Some err)"
  shows "Set_write c ext req rpcResp blockRef w =
           (Return (Some err), w\<lparr>trace := trace w @ [Call_generateKeysForJsonRpcRequest blockRef]\<rparr>)"
  using assms by (simp add: Set_write_def call_defs)

text \<open>A run of \<open>Get\<close> that passes its gates and derives its keys, in terms of the
  connector: the connector is read once, on the index the block reference selects, and
  the result and the store are what that read gives.\<close>

lemma Get_run:
  assumes "req_JsonRpcRequest req = (Some rpcReq, None)"
    and "\<not> Connector_IsMethodIgnored (conn c) (store w) (Method rpcReq)"
    and "ExtractEvmBlockReferenceFromRequest ext rpcReq = (blockRef, blockNumber, None)"
    and "\<not> (blockRef = '''' \<and> blockNumber = 0 \<and>
            \<not> Connector_HasTTL (conn c) (store w) (Method rpcReq))"
    and "blockNumber = 0 \<or> EvmIsBlockFinalized (network c) blockNumber \<noteq> (False, None)"
    and "req_CacheHash req = (cacheKey, None)"
    and "Connector_Get (conn c) (store w)
           (if blockRef = ''*'' then ConnectorReverseIndex else ConnectorMainIndex)
           (req_NetworkId req @ '':'' @ (if blockRef = '''' then ''nil'' else blockRef))
           cacheKey = ((v, gerr), s)"
  shows "Get c ext req w =
           (if gerr \<noteq> None then Return (None, gerr)
            else if v \<in> {[CHR 0x22, CHR 0x22], ''null'', ''[]'', ''{}''} then Return (None, None)
            else Return (Some \<lparr>request = Some req, fromCache = True,
                   jsonRpcResponse = Some \<lparr>JSONRPC = JsonRpcRequest.JSONRPC rpcReq,
                      ID = JsonRpcRequest.ID rpcReq, Error = None, Result = Some v\<rparr>\<rparr>, None),
            \<lparr>store = s,
             trace = trace w @
               [Call_IsMethodIgnored (Method rpcReq), Call_HasTTL (Method rpcReq),
                Call_ExtractEvmBlockReferenceFromRequest] @
               (if blockNumber \<noteq> 0 then [Call_EvmIsBlockFinalized blockNumber] else []) @
               [Call_generateKeysForJsonRpcRequest blockRef,
                Call_Get (if blockRef = ''*'' then ConnectorReverseIndex else ConnectorMainIndex)
                  (req_NetworkId req @ '':'' @ (if blockRef = '''' then ''nil'' else blockRef))
                  cacheKey]\<rparr>)"
proof -
  obtain s0 e0 where o: "EvmIsBlockFinalized (network c) blockNumber = (s0, e0)"
    by (metis surj_pair)
  note keys = generateKeys_ok[OF assms(6), of blockRef]
  have look: "\<And>w'. store w' = store w \<Longrightarrow>
      Get_lookup c req rpcReq blockRef w' =
           (if gerr \<noteq> None then Return (None, gerr)
            else if v \<in> {[CHR 0x22, CHR 0x22], ''null'', ''[]'', ''{}''} then Return (None, None)
            else Return (Some \<lparr>request = Some req, fromCache = True,
                   jsonRpcResponse = Some \<lparr>JSONRPC = JsonRpcRequest.JSONRPC rpcReq,
                      ID = JsonRpcRequest.ID rpcReq, Error = None, Result = Some v\<rparr>\<rparr>, None),
            \<lparr>store = s,
             trace = trace w' @
               [Call_generateKeysForJsonRpcRequest blockRef,
                Call_Get (if blockRef = ''*'' then ConnectorReverseIndex else ConnectorMainIndex)
                  (req_NetworkId req @ '':'' @ (if blockRef = '''' then ''nil'' else blockRef))
                  cacheKey]\<rparr>)"
  proof -
    fix w' :: "'a world"
    assume "store w' = store w"
    with assms(7) have "Connector_Get (conn c) (store w')
           (if blockRef = ''*'' then ConnectorReverseIndex else ConnectorMainIndex)
           (req_NetworkId req @ '':'' @ (if blockRef = '''' then ''nil'' else blockRef))
           cacheKey = ((v, gerr), s)" by simp
    from Get_lookup_run[OF keys this, of rpcReq]
    show "Get_lookup c req rpcReq blockRef w' =
           (if gerr \<noteq> None then Return (None, gerr)
            else if v \<in> {[CHR 0x22, CHR 0x22], ''null'', ''[]'', ''{}''} then Return (None, None)
            else Return (Some \<lparr>request = Some req, fromCache = True,
                   jsonRpcResponse = Some \<lparr>JSONRPC = JsonRpcRequest.JSONRPC rpcReq,
                      ID = JsonRpcRequest.ID rpcReq, Error = None, Result = Some v\<rparr>\<rparr>, None),
            \<lparr>store = s,
             trace = trace w' @
               [Call_generateKeysForJsonRpcRequest blockRef,
                Call_Get (if blockRef = ''*'' then ConnectorReverseIndex else ConnectorMainIndex)
                  (req_NetworkId req @ '':'' @ (if blockRef = '''' then ''nil'' else blockRef))
                  cacheKey]\<rparr>)" .
  qed
  show ?thesis
    unfolding Get_flat[OF assms(1,3) o]
    using assms(2,4,5) o by (auto simp: look)
qed

text \<open>A run of \<open>Set\<close> that passes its gates, derives its keys and serialises the result,
  in terms of the connector: one write with those keys and bytes.\<close>

lemma Set_run:
  assumes "req_JsonRpcRequest req = (Some rpcReq, None)"
    and "resp_JsonRpcResponse ext resp = (Some jrr, None)"
    and "\<not> Connector_IsMethodIgnored (conn c) (store w) (Method rpcReq)"
    and "shouldCache ext req resp rpcReq (Some jrr) = (True, None)"
    and "ExtractEvmBlockReference ext rpcReq (Some jrr) = (blockRef, blockNumber, None)"
    and "\<not> (blockRef = '''' \<and> blockNumber = 0 \<and>
            \<not> Connector_HasTTL (conn c) (store w) (Method rpcReq))"
    and "Connector_HasTTL (conn c) (store w) (Method rpcReq) \<or> \<not> 0 <s blockNumber \<or>
         EvmIsBlockFinalized (network c) blockNumber = (True, None)"
    and "req_CacheHash req = (cacheKey, None)"
    and "Marshal ext (Result jrr) = (bytes, None)"
    and "Connector_Set (conn c) (store w)
           (req_NetworkId req @ '':'' @ (if blockRef = '''' then ''nil'' else blockRef))
           cacheKey bytes = (e, s)"
  shows "Set c ext req resp w =
           (Return e,
            \<lparr>store = s,
             trace = trace w @
               [Call_IsMethodIgnored (Method rpcReq), Call_shouldCache,
                Call_ExtractEvmBlockReference, Call_HasTTL (Method rpcReq)] @
               (if \<not> Connector_HasTTL (conn c) (store w) (Method rpcReq) \<and> 0 <s blockNumber
                then [Call_EvmIsBlockFinalized blockNumber] else []) @
               [Call_generateKeysForJsonRpcRequest blockRef,
                Call_Set (req_NetworkId req @ '':'' @ (if blockRef = '''' then ''nil'' else blockRef))
                  cacheKey bytes]\<rparr>)"
proof -
  obtain s0 e0 where o: "EvmIsBlockFinalized (network c) blockNumber = (s0, e0)"
    by (metis surj_pair)
  note keys = generateKeys_ok[OF assms(8), of blockRef]
  have wr: "\<And>w'. store w' = store w \<Longrightarrow>
      Set_write c ext req (Some jrr) blockRef w' =
        (Return e,
         \<lparr>store = s,
          trace = trace w' @
            [Call_generateKeysForJsonRpcRequest blockRef,
             Call_Set (req_NetworkId req @ '':'' @ (if blockRef = '''' then ''nil'' else blockRef))
               cacheKey bytes]\<rparr>)"
  proof -
    fix w' :: "'a world"
    assume "store w' = store w"
    with assms(10) have "Connector_Set (conn c) (store w')
           (req_NetworkId req @ '':'' @ (if blockRef = '''' then ''nil'' else blockRef))
           cacheKey bytes = (e, s)" by simp
    from Set_write_run[OF keys assms(9) this]
    show "Set_write c ext req (Some jrr) blockRef w' =
        (Return e,
         \<lparr>store = s,
          trace = trace w' @
            [Call_generateKeysForJsonRpcRequest blockRef,
             Call_Set (req_NetworkId req @ '':'' @ (if blockRef = '''' then ''nil'' else blockRef))
               cacheKey bytes]\<rparr>)" by simp
  qed
  show ?thesis
    unfolding Set_flat[OF assms(1,2,4,5) o]
    using assms(3,6,7) o by (auto simp: wr)
qed

text \<open>The connector calls a run records: every \<open>Get\<close> of the connector in a run of
  \<open>Get\<close> is on the index and keys the resolved block reference selects, and a run of
  \<open>Set\<close> that calls the connector's \<open>Set\<close> does so with the derived keys and calls
  neither \<open>Get\<close> nor \<open>Delete\<close>.\<close>

lemma calls_on_selected_index:
  assumes "req_JsonRpcRequest req = (Some rpcReq, None)"
  shows "(ExtractEvmBlockReferenceFromRequest ext rpcReq = (blockRef, blockNumber, err) \<and>
          Call_Get index groupKey requestKey
            \<in> set (drop (length (trace w)) (trace (snd (Get c ext req w)))) \<longrightarrow>
            (index = ConnectorReverseIndex \<longleftrightarrow> blockRef = ''*'') \<and>
            (index = ConnectorMainIndex \<longleftrightarrow> blockRef \<noteq> ''*'') \<and>
            generateKeysForJsonRpcRequest req blockRef = (groupKey, requestKey, None)) \<and>
         (resp_JsonRpcResponse ext resp = (rpcResp, None) \<and>
          ExtractEvmBlockReference ext rpcReq rpcResp = (blockRef', blockNumber', err') \<and>
          Call_Set pk rk v
            \<in> set (drop (length (trace w)) (trace (snd (Set c ext req resp w)))) \<longrightarrow>
            generateKeysForJsonRpcRequest req blockRef' = (pk, rk, None) \<and>
            (\<forall>i g k. Call_Get i g k \<notin> set (drop (length (trace w)) (trace (snd (Set c ext req resp w)))) \<and>
                     Call_Delete i g k \<notin> set (drop (length (trace w)) (trace (snd (Set c ext req resp w))))))"
proof (rule conjI; rule impI)
  assume h: "ExtractEvmBlockReferenceFromRequest ext rpcReq = (blockRef, blockNumber, err) \<and>
          Call_Get index groupKey requestKey
            \<in> set (drop (length (trace w)) (trace (snd (Get c ext req w))))"
  then have x: "ExtractEvmBlockReferenceFromRequest ext rpcReq = (blockRef, blockNumber, err)"
    and m: "Call_Get index groupKey requestKey
            \<in> set (drop (length (trace w)) (trace (snd (Get c ext req w))))" by simp_all
  from Get_cases[OF assms x, of c w]
  show "(index = ConnectorReverseIndex \<longleftrightarrow> blockRef = ''*'') \<and>
        (index = ConnectorMainIndex \<longleftrightarrow> blockRef \<noteq> ''*'') \<and>
        generateKeysForJsonRpcRequest req blockRef = (groupKey, requestKey, None)"
  proof (elim disjE exE conjE)
    fix r evs
    assume "Get c ext req w = (Return (None, r), w\<lparr>trace := trace w @ evs\<rparr>)"
      "\<forall>i g k. Call_Get i g k \<notin> set evs"
    with m show ?thesis by simp
  next
    fix evs
    let ?w = "w\<lparr>trace := trace w @ evs\<rparr>"
    assume g: "Get c ext req w = Get_lookup c req rpcReq blockRef ?w"
      and n: "\<forall>i g k. Call_Get i g k \<notin> set evs"
    obtain gk0 rk0 e0 where k: "generateKeysForJsonRpcRequest req blockRef = (gk0, rk0, e0)"
      by (metis prod_cases3)
    show ?thesis
    proof (cases e0)
      case None
      obtain v0 er0 s0 where cg: "Connector_Get (conn c) (store ?w)
           (if blockRef = ''*'' then ConnectorReverseIndex else ConnectorMainIndex) gk0 rk0
             = ((v0, er0), s0)"
        by (metis surj_pair)
      from Get_lookup_run[OF k[unfolded None] cg, of rpcReq] g m n
      show ?thesis using k None by (auto split: if_splits)
    next
      case (Some a)
      from Get_lookup_keys_error[OF k[unfolded Some], of c rpcReq ?w] g m n
      show ?thesis by auto
    qed
  qed
next
  assume h: "resp_JsonRpcResponse ext resp = (rpcResp, None) \<and>
          ExtractEvmBlockReference ext rpcReq rpcResp = (blockRef', blockNumber', err') \<and>
          Call_Set pk rk v
            \<in> set (drop (length (trace w)) (trace (snd (Set c ext req resp w))))"
  then have p: "resp_JsonRpcResponse ext resp = (rpcResp, None)"
    and x: "ExtractEvmBlockReference ext rpcReq rpcResp = (blockRef', blockNumber', err')"
    and m: "Call_Set pk rk v
            \<in> set (drop (length (trace w)) (trace (snd (Set c ext req resp w))))" by simp_all
  have keys: "generateKeysForJsonRpcRequest req blockRef' = (pk, rk, None)"
    using Set_wrote[OF assms p x m] by simp
  have noidx: "\<forall>i g k. Call_Get i g k \<notin> set (drop (length (trace w)) (trace (snd (Set c ext req resp w)))) \<and>
                     Call_Delete i g k \<notin> set (drop (length (trace w)) (trace (snd (Set c ext req resp w))))"
    using Set_cases[OF assms p x, of c w]
  proof (elim disjE exE conjE)
    fix r evs
    assume "Set c ext req resp w = (r, w\<lparr>trace := trace w @ evs\<rparr>)"
      "\<forall>i g k. Call_Get i g k \<notin> set evs \<and> Call_Delete i g k \<notin> set evs"
    then show ?thesis by simp
  next
    fix evs
    let ?w = "w\<lparr>trace := trace w @ evs\<rparr>"
    assume s: "Set c ext req resp w = Set_write c ext req rpcResp blockRef' ?w"
      and g: "\<forall>i g k. Call_Get i g k \<notin> set evs \<and> Call_Delete i g k \<notin> set evs"
    obtain more where t: "trace (snd (Set_write c ext req rpcResp blockRef' ?w)) =
        trace ?w @ Call_generateKeysForJsonRpcRequest blockRef' # more"
      and mo: "\<forall>i g k. Call_Get i g k \<notin> set more \<and> Call_Delete i g k \<notin> set more"
      using Set_write_trace[of c ext req rpcResp blockRef' ?w] by blast
    show ?thesis using s t g mo by simp
  qed
  show "generateKeysForJsonRpcRequest req blockRef' = (pk, rk, None) \<and>
        (\<forall>i g k. Call_Get i g k \<notin> set (drop (length (trace w)) (trace (snd (Set c ext req resp w)))) \<and>
                 Call_Delete i g k \<notin> set (drop (length (trace w)) (trace (snd (Set c ext req resp w)))))"
    using keys noidx by blast
qed

subsection \<open>Claims\<close>

text \<open>
  C1 (the code departs from the claim). The claim makes a response without result
  eligible when the upstream is not syncing, a positive block number is resolved from the
  request without error, and the finality check succeeds and says finalized. At such an
  input \<open>shouldCache\<close> answers \<open>(false, nil)\<close>: the response has the result \<open>null\<close>, the
  upstream's \<open>Syncing\<close> is \<open>false\<close>, \<open>req.EvmBlockNumber()\<close> returns \<open>(100, nil)\<close> and the
  network of the request reports block 100 as finalized, without error. Lines 234 and
  237 test \<open>err != nil\<close>, so the way out is taken only when both calls fail.
\<close>

theorem shouldCache_synced_finalized_empty:
  "noResultOrError (sampleExternals (''0x64'', 100, None))
     (Some (sampleResponse (Some ''null''))) (Some (sampleRpcResponse (Some ''null''))) \<and>
   resp_Upstream (sampleExternals (''0x64'', 100, None)) (Some (sampleResponse (Some ''null'')))
     = Some \<lparr>Config = \<lparr>Evm = Some \<lparr>Syncing = Some False\<rparr>\<rparr>\<rparr> \<and>
   req_EvmBlockNumber (sampleRequest ''1'' ''eth_getTransactionReceipt'' (100, None)) = (100, None) \<and>
   0 <s (100 :: int64) \<and>
   req_Network (sampleRequest ''1'' ''eth_getTransactionReceipt'' (100, None))
     = Some (fixedNetwork (True, None)) \<and>
   EvmIsBlockFinalized (fixedNetwork (True, None)) 100 = (True, None) \<and>
   shouldCache (sampleExternals (''0x64'', 100, None))
     (sampleRequest ''1'' ''eth_getTransactionReceipt'' (100, None))
     (Some (sampleResponse (Some ''null'')))
     (sampleRpcRequest ''1'' ''eth_getTransactionReceipt'')
     (Some (sampleRpcResponse (Some ''null''))) = (False, None)"
proof -
  have pos: "0 <s (100 :: int64)" by (simp add: word_sless_alt)
  have n: "noResultOrError (sampleExternals (''0x64'', 100, None))
     (Some (sampleResponse (Some ''null''))) (Some (sampleRpcResponse (Some ''null'')))"
    by (simp add: sample_defs noResultOrError_def)
  have b: "snd (req_EvmBlockNumber (sampleRequest ''1'' ''eth_getTransactionReceipt'' (100, None))) = None"
    by (simp add: sample_defs)
  from shouldCache_resolved_block_number[OF n b] n pos show ?thesis
    by (simp add: sample_defs)
qed




text \<open>
  C3. Take a request and a response that parse, a method that is not ignored and has no
  TTL override, a response the policy calls eligible, and a resolution of request and
  response to a block number above zero. \<open>Set\<close> asks the finality oracle before anything
  is written. If the oracle answers "not finalized" or returns an error, \<open>Set\<close> returns the
  oracle's error (\<open>nil\<close> when there is none), the store is unchanged and the connector's
  \<open>Set\<close> has not been called; otherwise \<open>Set\<close> goes on to its write part.
\<close>

theorem Set_finality_gate:
  assumes "req_JsonRpcRequest req = (Some rpcReq, None)"
    and "resp_JsonRpcResponse ext resp = (Some jrr, None)"
    and "\<not> Connector_IsMethodIgnored (conn c) (store w) (Method rpcReq)"
    and "shouldCache ext req resp rpcReq (Some jrr) = (True, None)"
    and "ExtractEvmBlockReference ext rpcReq (Some jrr) = (blockRef, blockNumber, None)"
    and "\<not> Connector_HasTTL (conn c) (store w) (Method rpcReq)"
    and "0 <s blockNumber"
    and "EvmIsBlockFinalized (network c) blockNumber = (s, e)"
  shows "Set c ext req resp w =
           (if \<not> s \<or> e \<noteq> None
            then (Return e,
                  w\<lparr>trace := trace w @
                     [Call_IsMethodIgnored (Method rpcReq), Call_shouldCache,
                      Call_ExtractEvmBlockReference, Call_HasTTL (Method rpcReq),
                      Call_EvmIsBlockFinalized blockNumber]\<rparr>)
            else Set_write c ext req (Some jrr) blockRef
                  (w\<lparr>trace := trace w @
                     [Call_IsMethodIgnored (Method rpcReq), Call_shouldCache,
                      Call_ExtractEvmBlockReference, Call_HasTTL (Method rpcReq),
                      Call_EvmIsBlockFinalized blockNumber]\<rparr>))"
proof -
  have "blockNumber \<noteq> 0" using assms(7) by auto
  then show ?thesis
    using assms(3,6,7) by (simp add: Set_flat[OF assms(1,2,4,5,8)])
qed

text \<open>The oracle fails for block 100: \<open>Set\<close> returns its error and writes nothing.\<close>

theorem Set_finality_gate_witness:
  "req_JsonRpcRequest (sampleRequest ''1'' ''eth_getBlockByNumber'' (100, None)) =
     (Some (sampleRpcRequest ''1'' ''eth_getBlockByNumber''), None) \<and>
   resp_JsonRpcResponse (sampleExternals (''0x64'', 100, None)) (Some (sampleResponse (Some ''0x2a'')))
     = (Some (sampleRpcResponse (Some ''0x2a'')), None) \<and>
   \<not> Connector_IsMethodIgnored (conn (memCache [] [] (False, Some (ErrorMsg ''block tracker unavailable''))))
       [] (Method (sampleRpcRequest ''1'' ''eth_getBlockByNumber'')) \<and>
   shouldCache (sampleExternals (''0x64'', 100, None))
     (sampleRequest ''1'' ''eth_getBlockByNumber'' (100, None))
     (Some (sampleResponse (Some ''0x2a''))) (sampleRpcRequest ''1'' ''eth_getBlockByNumber'')
     (Some (sampleRpcResponse (Some ''0x2a''))) = (True, None) \<and>
   ExtractEvmBlockReference (sampleExternals (''0x64'', 100, None))
     (sampleRpcRequest ''1'' ''eth_getBlockByNumber'') (Some (sampleRpcResponse (Some ''0x2a'')))
     = (''0x64'', 100, None) \<and>
   \<not> Connector_HasTTL (conn (memCache [] [] (False, Some (ErrorMsg ''block tracker unavailable''))))
       [] (Method (sampleRpcRequest ''1'' ''eth_getBlockByNumber'')) \<and>
   0 <s (100 :: int64) \<and>
   EvmIsBlockFinalized (network (memCache [] [] (False, Some (ErrorMsg ''block tracker unavailable'')))) 100
     = (False, Some (ErrorMsg ''block tracker unavailable'')) \<and>
   Set (memCache [] [] (False, Some (ErrorMsg ''block tracker unavailable'')))
     (sampleExternals (''0x64'', 100, None))
     (sampleRequest ''1'' ''eth_getBlockByNumber'' (100, None))
     (Some (sampleResponse (Some ''0x2a''))) \<lparr>store = [], trace = []\<rparr>
     = (Return (Some (ErrorMsg ''block tracker unavailable'')),
        \<lparr>store = [],
         trace = [Call_IsMethodIgnored ''eth_getBlockByNumber'', Call_shouldCache,
                  Call_ExtractEvmBlockReference, Call_HasTTL ''eth_getBlockByNumber'',
                  Call_EvmIsBlockFinalized 100]\<rparr>)"
proof -
  have sc: "shouldCache (sampleExternals (''0x64'', 100, None))
     (sampleRequest ''1'' ''eth_getBlockByNumber'' (100, None))
     (Some (sampleResponse (Some ''0x2a''))) (sampleRpcRequest ''1'' ''eth_getBlockByNumber'')
     (Some (sampleRpcResponse (Some ''0x2a''))) = (True, None)"
    by (simp add: sample_defs shouldCache_def noResultOrError_def)
  have pos: "0 <s (100 :: int64)" by (simp add: word_sless_alt)
  show ?thesis
    using sc pos Set_finality_gate
      [where req = "sampleRequest ''1'' ''eth_getBlockByNumber'' (100, None)"
         and rpcReq = "sampleRpcRequest ''1'' ''eth_getBlockByNumber''"
         and c = "memCache [] [] (False, Some (ErrorMsg ''block tracker unavailable''))"
         and w = "\<lparr>store = [], trace = []\<rparr>"
         and ext = "sampleExternals (''0x64'', 100, None)"
         and resp = "Some (sampleResponse (Some ''0x2a''))"
         and jrr = "sampleRpcResponse (Some ''0x2a'')"
         and blockRef = "''0x64''" and blockNumber = 100
         and s = False and e = "Some (ErrorMsg ''block tracker unavailable'')"]
    by (simp add: sample_defs)
qed







text \<open>
  C6, as the code has it. For a request that parses and whose method the connector
  reports as ignored, \<open>Get\<close> returns \<open>(nil, nil)\<close> after the single call
  \<open>IsMethodIgnored\<close>: no resolver, no policy, no connector \<open>Get\<close> or \<open>Set\<close>. \<open>Set\<close>
  parses the response before it looks at the method: when the response parses it returns
  \<open>nil\<close> after the same single call, and when the response does not parse it returns the
  parse error and has called nothing.
\<close>

theorem ignored_method_skips_cache:
  assumes "req_JsonRpcRequest req = (Some rpcReq, None)"
    and "Connector_IsMethodIgnored (conn c) (store w) (Method rpcReq)"
  shows "Get c ext req w =
           (Return (None, None), w\<lparr>trace := trace w @ [Call_IsMethodIgnored (Method rpcReq)]\<rparr>) \<and>
         (snd (resp_JsonRpcResponse ext resp) = None \<longrightarrow>
            Set c ext req resp w =
              (Return None, w\<lparr>trace := trace w @ [Call_IsMethodIgnored (Method rpcReq)]\<rparr>)) \<and>
         (\<forall>err. snd (resp_JsonRpcResponse ext resp) = Some err \<longrightarrow>
            Set c ext req resp w = (Return (Some err), w))"
  using assms by (auto simp: Get_def Set_def call_defs split: prod.splits option.splits)

text \<open>An ignored \<open>eth_sendRawTransaction\<close> on an empty store.\<close>

theorem ignored_method_skips_cache_witness:
  "req_JsonRpcRequest (sampleRequest ''1'' ''eth_sendRawTransaction'' (0, None)) =
     (Some (sampleRpcRequest ''1'' ''eth_sendRawTransaction''), None) \<and>
   Connector_IsMethodIgnored (conn (memCache [] [''eth_sendRawTransaction''] (True, None))) []
     (Method (sampleRpcRequest ''1'' ''eth_sendRawTransaction'')) \<and>
   Get (memCache [] [''eth_sendRawTransaction''] (True, None)) (sampleExternals ('''', 0, None))
     (sampleRequest ''1'' ''eth_sendRawTransaction'' (0, None)) \<lparr>store = [], trace = []\<rparr>
     = (Return (None, None),
        \<lparr>store = [], trace = [Call_IsMethodIgnored ''eth_sendRawTransaction'']\<rparr>) \<and>
   Set (memCache [] [''eth_sendRawTransaction''] (True, None)) (sampleExternals ('''', 0, None))
     (sampleRequest ''1'' ''eth_sendRawTransaction'' (0, None))
     (Some (sampleResponse (Some ''0xabc''))) \<lparr>store = [], trace = []\<rparr>
     = (Return None, \<lparr>store = [], trace = [Call_IsMethodIgnored ''eth_sendRawTransaction'']\<rparr>)"
  using ignored_method_skips_cache
    [where req = "sampleRequest ''1'' ''eth_sendRawTransaction'' (0, None)"
       and rpcReq = "sampleRpcRequest ''1'' ''eth_sendRawTransaction''"
       and c = "memCache [] [''eth_sendRawTransaction''] (True, None)"
       and w = "\<lparr>store = [], trace = []\<rparr>"
       and ext = "sampleExternals ('''', 0, None)"
       and resp = "Some (sampleResponse (Some ''0xabc''))"]
  by (simp add: sample_defs)

text \<open>C6 as stated fails: the method is ignored and the request parses, but the response
  does not, and \<open>Set\<close> returns the parse error, not \<open>nil\<close>.\<close>

theorem ignored_method_unparsed_response:
  "req_JsonRpcRequest (sampleRequest ''1'' ''eth_sendRawTransaction'' (0, None)) =
     (Some (sampleRpcRequest ''1'' ''eth_sendRawTransaction''), None) \<and>
   Connector_IsMethodIgnored (conn (memCache [] [''eth_sendRawTransaction''] (True, None))) []
     (Method (sampleRpcRequest ''1'' ''eth_sendRawTransaction'')) \<and>
   Set (memCache [] [''eth_sendRawTransaction''] (True, None)) (unparsedExternals ('''', 0, None))
     (sampleRequest ''1'' ''eth_sendRawTransaction'' (0, None))
     (Some (sampleResponse (Some ''0xabc''))) \<lparr>store = [], trace = []\<rparr>
     = (Return (Some (ErrorMsg ''unexpected end of JSON input'')), \<lparr>store = [], trace = []\<rparr>)"
  by (simp add: sample_defs Set_def)

text \<open>
  C7. Take a request that parses and whose method is not ignored.

  Read path, when the resolver finds no block scope in the request (empty reference,
  number zero, no error). Without a TTL override \<open>Get\<close> returns \<open>(nil, nil)\<close> after
  \<open>IsMethodIgnored\<close>, \<open>HasTTL\<close> and the resolver call: the connector is not read and the
  store is unchanged. With a TTL override the gate does not apply and \<open>Get\<close> derives its
  keys: if \<open>CacheHash\<close> fails, \<open>Get\<close> returns that error; otherwise it reads the connector
  on the main index with group key \<open>networkId:nil\<close> and the content hash, without asking
  the finality oracle, and its result and store are what that read gives.

  Write path, when the response parses, the policy says eligible and the resolver finds
  no block scope in request and response. Without a TTL override \<open>Set\<close> returns \<open>nil\<close>:
  nothing is written and the store is unchanged. With a TTL override the gate does not
  apply and \<open>Set\<close> derives its keys: if \<open>CacheHash\<close> fails, \<open>Set\<close> returns that error;
  otherwise it serialises the result and, unless that fails, writes the bytes under
  \<open>networkId:nil\<close> and the content hash, and returns what the connector returns.
\<close>

theorem no_block_scope_gate:
  assumes "req_JsonRpcRequest req = (Some rpcReq, None)"
    and "\<not> Connector_IsMethodIgnored (conn c) (store w) (Method rpcReq)"
  shows
    "(ExtractEvmBlockReferenceFromRequest ext rpcReq = ('''', 0, None) \<and>
      \<not> Connector_HasTTL (conn c) (store w) (Method rpcReq) \<longrightarrow>
        Get c ext req w =
          (Return (None, None),
           w\<lparr>trace := trace w @
              [Call_IsMethodIgnored (Method rpcReq), Call_HasTTL (Method rpcReq),
               Call_ExtractEvmBlockReferenceFromRequest]\<rparr>)) \<and>
     (ExtractEvmBlockReferenceFromRequest ext rpcReq = ('''', 0, None) \<and>
      Connector_HasTTL (conn c) (store w) (Method rpcReq) \<and>
      req_CacheHash req = (cacheKey, Some herr) \<longrightarrow>
        Get c ext req w =
          (Return (None, Some herr),
           w\<lparr>trace := trace w @
              [Call_IsMethodIgnored (Method rpcReq), Call_HasTTL (Method rpcReq),
               Call_ExtractEvmBlockReferenceFromRequest,
               Call_generateKeysForJsonRpcRequest '''']\<rparr>)) \<and>
     (ExtractEvmBlockReferenceFromRequest ext rpcReq = ('''', 0, None) \<and>
      Connector_HasTTL (conn c) (store w) (Method rpcReq) \<and>
      req_CacheHash req = (cacheKey, None) \<and>
      Connector_Get (conn c) (store w) ConnectorMainIndex (req_NetworkId req @ '':nil'') cacheKey
        = ((v, gerr), s) \<longrightarrow>
        Get c ext req w =
          (if gerr \<noteq> None then Return (None, gerr)
           else if v \<in> {[CHR 0x22, CHR 0x22], ''null'', ''[]'', ''{}''} then Return (None, None)
           else Return (Some \<lparr>request = Some req, fromCache = True,
                  jsonRpcResponse = Some \<lparr>JSONRPC = JsonRpcRequest.JSONRPC rpcReq,
                     ID = JsonRpcRequest.ID rpcReq, Error = None, Result = Some v\<rparr>\<rparr>, None),
           \<lparr>store = s,
            trace = trace w @
              [Call_IsMethodIgnored (Method rpcReq), Call_HasTTL (Method rpcReq),
               Call_ExtractEvmBlockReferenceFromRequest,
               Call_generateKeysForJsonRpcRequest '''',
               Call_Get ConnectorMainIndex (req_NetworkId req @ '':nil'') cacheKey]\<rparr>)) \<and>
     (resp_JsonRpcResponse ext resp = (rpcResp, None) \<and>
      shouldCache ext req resp rpcReq rpcResp = (True, None) \<and>
      ExtractEvmBlockReference ext rpcReq rpcResp = ('''', 0, None) \<and>
      \<not> Connector_HasTTL (conn c) (store w) (Method rpcReq) \<longrightarrow>
        Set c ext req resp w =
          (Return None,
           w\<lparr>trace := trace w @
              [Call_IsMethodIgnored (Method rpcReq), Call_shouldCache,
               Call_ExtractEvmBlockReference, Call_HasTTL (Method rpcReq)]\<rparr>)) \<and>
     (resp_JsonRpcResponse ext resp = (rpcResp, None) \<and>
      shouldCache ext req resp rpcReq rpcResp = (True, None) \<and>
      ExtractEvmBlockReference ext rpcReq rpcResp = ('''', 0, None) \<and>
      Connector_HasTTL (conn c) (store w) (Method rpcReq) \<and>
      req_CacheHash req = (cacheKey, Some herr) \<longrightarrow>
        Set c ext req resp w =
          (Return (Some herr),
           w\<lparr>trace := trace w @
              [Call_IsMethodIgnored (Method rpcReq), Call_shouldCache,
               Call_ExtractEvmBlockReference, Call_HasTTL (Method rpcReq),
               Call_generateKeysForJsonRpcRequest '''']\<rparr>)) \<and>
     (resp_JsonRpcResponse ext resp = (Some jrr, None) \<and>
      shouldCache ext req resp rpcReq (Some jrr) = (True, None) \<and>
      ExtractEvmBlockReference ext rpcReq (Some jrr) = ('''', 0, None) \<and>
      Connector_HasTTL (conn c) (store w) (Method rpcReq) \<and>
      req_CacheHash req = (cacheKey, None) \<and>
      Marshal ext (Result jrr) = (bytes, merr) \<and>
      Connector_Set (conn c) (store w) (req_NetworkId req @ '':nil'') cacheKey bytes = (e, s') \<longrightarrow>
        Set c ext req resp w =
          (if merr \<noteq> None
           then (Return merr,
                 w\<lparr>trace := trace w @
                    [Call_IsMethodIgnored (Method rpcReq), Call_shouldCache,
                     Call_ExtractEvmBlockReference, Call_HasTTL (Method rpcReq),
                     Call_generateKeysForJsonRpcRequest '''']\<rparr>)
           else (Return e,
                 \<lparr>store = s',
                  trace = trace w @
                    [Call_IsMethodIgnored (Method rpcReq), Call_shouldCache,
                     Call_ExtractEvmBlockReference, Call_HasTTL (Method rpcReq),
                     Call_generateKeysForJsonRpcRequest '''',
                     Call_Set (req_NetworkId req @ '':nil'') cacheKey bytes]\<rparr>)))"
proof -
  obtain s0 e0 where o: "EvmIsBlockFinalized (network c) 0 = (s0, e0)" by (metis surj_pair)
  have G0: "Get c ext req w =
          (Return (None, None),
           w\<lparr>trace := trace w @
              [Call_IsMethodIgnored (Method rpcReq), Call_HasTTL (Method rpcReq),
               Call_ExtractEvmBlockReferenceFromRequest]\<rparr>)"
    if "ExtractEvmBlockReferenceFromRequest ext rpcReq = ('''', 0, None)"
      and "\<not> Connector_HasTTL (conn c) (store w) (Method rpcReq)"
    using assms(2) that(2) by (simp add: Get_flat[OF assms(1) that(1) o])
  have G1: "Get c ext req w =
          (Return (None, Some herr),
           w\<lparr>trace := trace w @
              [Call_IsMethodIgnored (Method rpcReq), Call_HasTTL (Method rpcReq),
               Call_ExtractEvmBlockReferenceFromRequest,
               Call_generateKeysForJsonRpcRequest '''']\<rparr>)"
    if "ExtractEvmBlockReferenceFromRequest ext rpcReq = ('''', 0, None)"
      and "Connector_HasTTL (conn c) (store w) (Method rpcReq)"
      and "req_CacheHash req = (cacheKey, Some herr)"
    using assms(2) that(2)
    by (simp add: Get_flat[OF assms(1) that(1) o]
        Get_lookup_keys_error[OF generateKeys_error[OF that(3)]])
  have G2: "Get c ext req w =
          (if gerr \<noteq> None then Return (None, gerr)
           else if v \<in> {[CHR 0x22, CHR 0x22], ''null'', ''[]'', ''{}''} then Return (None, None)
           else Return (Some \<lparr>request = Some req, fromCache = True,
                  jsonRpcResponse = Some \<lparr>JSONRPC = JsonRpcRequest.JSONRPC rpcReq,
                     ID = JsonRpcRequest.ID rpcReq, Error = None, Result = Some v\<rparr>\<rparr>, None),
           \<lparr>store = s,
            trace = trace w @
              [Call_IsMethodIgnored (Method rpcReq), Call_HasTTL (Method rpcReq),
               Call_ExtractEvmBlockReferenceFromRequest,
               Call_generateKeysForJsonRpcRequest '''',
               Call_Get ConnectorMainIndex (req_NetworkId req @ '':nil'') cacheKey]\<rparr>)"
    if "ExtractEvmBlockReferenceFromRequest ext rpcReq = ('''', 0, None)"
      and "Connector_HasTTL (conn c) (store w) (Method rpcReq)"
      and "req_CacheHash req = (cacheKey, None)"
      and "Connector_Get (conn c) (store w) ConnectorMainIndex (req_NetworkId req @ '':nil'')
             cacheKey = ((v, gerr), s)"
  proof -
    have rd: "Connector_Get (conn c) (store w)
           (if '''' = ''*'' then ConnectorReverseIndex else ConnectorMainIndex)
           (req_NetworkId req @ '':'' @ (if '''' = '''' then ''nil'' else ''''))
           cacheKey = ((v, gerr), s)"
      using that(4) by simp
    from Get_run[OF assms(1,2) that(1) _ _ that(3) rd] that(2)
    show ?thesis by simp
  qed
  have S0: "Set c ext req resp w =
          (Return None,
           w\<lparr>trace := trace w @
              [Call_IsMethodIgnored (Method rpcReq), Call_shouldCache,
               Call_ExtractEvmBlockReference, Call_HasTTL (Method rpcReq)]\<rparr>)"
    if "resp_JsonRpcResponse ext resp = (rpcResp, None)"
      and "shouldCache ext req resp rpcReq rpcResp = (True, None)"
      and "ExtractEvmBlockReference ext rpcReq rpcResp = ('''', 0, None)"
      and "\<not> Connector_HasTTL (conn c) (store w) (Method rpcReq)"
    using assms(2) that(4) by (simp add: Set_flat[OF assms(1) that(1,2,3) o])
  have S1: "Set c ext req resp w =
          (Return (Some herr),
           w\<lparr>trace := trace w @
              [Call_IsMethodIgnored (Method rpcReq), Call_shouldCache,
               Call_ExtractEvmBlockReference, Call_HasTTL (Method rpcReq),
               Call_generateKeysForJsonRpcRequest '''']\<rparr>)"
    if "resp_JsonRpcResponse ext resp = (rpcResp, None)"
      and "shouldCache ext req resp rpcReq rpcResp = (True, None)"
      and "ExtractEvmBlockReference ext rpcReq rpcResp = ('''', 0, None)"
      and "Connector_HasTTL (conn c) (store w) (Method rpcReq)"
      and "req_CacheHash req = (cacheKey, Some herr)"
    using assms(2) that(4)
    by (simp add: Set_flat[OF assms(1) that(1,2,3) o]
        Set_write_keys_error[OF generateKeys_error[OF that(5)]])
  have S2: "Set c ext req resp w =
          (if merr \<noteq> None
           then (Return merr,
                 w\<lparr>trace := trace w @
                    [Call_IsMethodIgnored (Method rpcReq), Call_shouldCache,
                     Call_ExtractEvmBlockReference, Call_HasTTL (Method rpcReq),
                     Call_generateKeysForJsonRpcRequest '''']\<rparr>)
           else (Return e,
                 \<lparr>store = s',
                  trace = trace w @
                    [Call_IsMethodIgnored (Method rpcReq), Call_shouldCache,
                     Call_ExtractEvmBlockReference, Call_HasTTL (Method rpcReq),
                     Call_generateKeysForJsonRpcRequest '''',
                     Call_Set (req_NetworkId req @ '':nil'') cacheKey bytes]\<rparr>))"
    if "resp_JsonRpcResponse ext resp = (Some jrr, None)"
      and "shouldCache ext req resp rpcReq (Some jrr) = (True, None)"
      and "ExtractEvmBlockReference ext rpcReq (Some jrr) = ('''', 0, None)"
      and "Connector_HasTTL (conn c) (store w) (Method rpcReq)"
      and "req_CacheHash req = (cacheKey, None)"
      and "Marshal ext (Result jrr) = (bytes, merr)"
      and "Connector_Set (conn c) (store w) (req_NetworkId req @ '':nil'') cacheKey bytes = (e, s')"
  proof -
    have keys: "generateKeysForJsonRpcRequest req '''' = (req_NetworkId req @ '':nil'', cacheKey, None)"
      using generateKeys_ok[OF that(5), of "''''"] by simp
    let ?w = "w\<lparr>trace := trace w @
                    [Call_IsMethodIgnored (Method rpcReq), Call_shouldCache,
                     Call_ExtractEvmBlockReference, Call_HasTTL (Method rpcReq)]\<rparr>"
    have "Connector_Set (conn c) (store ?w) (req_NetworkId req @ '':nil'') cacheKey bytes = (e, s')"
      using that(7) by simp
    from Set_write_run[OF keys that(6) this] assms(2) that(4)
    show ?thesis by (simp add: Set_flat[OF assms(1) that(1,2,3) o])
  qed
  show ?thesis
    using G0 G1 G2 S0 S1 S2 by blast
qed

text \<open>\<open>eth_chainId\<close> has no block scope. Without a TTL override neither path touches the
  store. With one, \<open>Set\<close> writes the result \<open>"0x1"\<close> under \<open>evm:1:nil\<close>, and \<open>Get\<close> reads
  it back from the main index without a finality check.\<close>

theorem no_block_scope_gate_witness:
  "Get (memCache [] [] (True, None)) (sampleExternals ('''', 0, None))
     (sampleRequest ''1'' ''eth_chainId'' (0, None))
     \<lparr>store = [((''evm:1:nil'', ''eth_chainId:h''), quoted ''0x1'')], trace = []\<rparr>
     = (Return (None, None),
        \<lparr>store = [((''evm:1:nil'', ''eth_chainId:h''), quoted ''0x1'')],
         trace = [Call_IsMethodIgnored ''eth_chainId'', Call_HasTTL ''eth_chainId'',
                  Call_ExtractEvmBlockReferenceFromRequest]\<rparr>) \<and>
   Set (memCache [] [] (True, None)) (sampleExternals ('''', 0, None))
     (sampleRequest ''1'' ''eth_chainId'' (0, None)) (Some (sampleResponse (Some (quoted ''0x1''))))
     \<lparr>store = [], trace = []\<rparr>
     = (Return None,
        \<lparr>store = [], trace = [Call_IsMethodIgnored ''eth_chainId'', Call_shouldCache,
                               Call_ExtractEvmBlockReference, Call_HasTTL ''eth_chainId'']\<rparr>) \<and>
   Marshal (sampleExternals ('''', 0, None)) (Result (sampleRpcResponse (Some (quoted ''0x1''))))
     = (quoted ''0x1'', None) \<and>
   Set (memCache [''eth_chainId''] [] (True, None)) (sampleExternals ('''', 0, None))
     (sampleRequest ''1'' ''eth_chainId'' (0, None)) (Some (sampleResponse (Some (quoted ''0x1''))))
     \<lparr>store = [], trace = []\<rparr>
     = (Return None,
        \<lparr>store = [((''evm:1:nil'', ''eth_chainId:h''), quoted ''0x1'')],
         trace = [Call_IsMethodIgnored ''eth_chainId'', Call_shouldCache,
                  Call_ExtractEvmBlockReference, Call_HasTTL ''eth_chainId'',
                  Call_generateKeysForJsonRpcRequest '''',
                  Call_Set ''evm:1:nil'' ''eth_chainId:h'' (quoted ''0x1'')]\<rparr>) \<and>
   Get (memCache [''eth_chainId''] [] (True, None)) (sampleExternals ('''', 0, None))
     (sampleRequest ''2'' ''eth_chainId'' (0, None))
     \<lparr>store = [((''evm:1:nil'', ''eth_chainId:h''), quoted ''0x1'')], trace = []\<rparr>
     = (Return
          (Some \<lparr>request = Some (sampleRequest ''2'' ''eth_chainId'' (0, None)),
                 fromCache = True,
                 jsonRpcResponse =
                   Some \<lparr>JSONRPC = ''2.0'', ID = ''2'', Error = None,
                         Result = Some (quoted ''0x1'')\<rparr>\<rparr>,
           None),
        \<lparr>store = [((''evm:1:nil'', ''eth_chainId:h''), quoted ''0x1'')],
         trace = [Call_IsMethodIgnored ''eth_chainId'', Call_HasTTL ''eth_chainId'',
                  Call_ExtractEvmBlockReferenceFromRequest,
                  Call_generateKeysForJsonRpcRequest '''',
                  Call_Get ConnectorMainIndex ''evm:1:nil'' ''eth_chainId:h'']\<rparr>)"
proof -
  let ?ext = "sampleExternals ('''', 0, None)"
  let ?req = "sampleRequest ''1'' ''eth_chainId'' (0, None)"
  let ?req2 = "sampleRequest ''2'' ''eth_chainId'' (0, None)"
  let ?resp = "Some (sampleResponse (Some (quoted ''0x1'')))"
  let ?jrr = "sampleRpcResponse (Some (quoted ''0x1''))"
  let ?plain = "memCache [] [] (True, None)"
  let ?ttl = "memCache [''eth_chainId''] [] (True, None)"
  let ?w0 = "\<lparr>store = [] :: memStore, trace = []\<rparr>"
  let ?w1 = "\<lparr>store = [((''evm:1:nil'', ''eth_chainId:h''), quoted ''0x1'')] :: memStore,
             trace = []\<rparr>"
  have r: "req_JsonRpcRequest ?req = (Some (sampleRpcRequest ''1'' ''eth_chainId''), None)"
    and r2: "req_JsonRpcRequest ?req2 = (Some (sampleRpcRequest ''2'' ''eth_chainId''), None)"
    by (simp_all add: sample_defs)
  have sc: "shouldCache ?ext ?req ?resp (sampleRpcRequest ''1'' ''eth_chainId'') (Some ?jrr)
              = (True, None)"
    by (simp add: sample_defs shouldCache_def noResultOrError_def)
  have m: "Marshal ?ext (Result ?jrr) = (quoted ''0x1'', None)"
    by (simp add: sample_defs)
  have n1: "\<not> Connector_IsMethodIgnored (conn ?plain) (store ?w1)
               (Method (sampleRpcRequest ''1'' ''eth_chainId''))"
    and n0: "\<not> Connector_IsMethodIgnored (conn ?plain) (store ?w0)
               (Method (sampleRpcRequest ''1'' ''eth_chainId''))"
    and t0: "\<not> Connector_IsMethodIgnored (conn ?ttl) (store ?w0)
               (Method (sampleRpcRequest ''1'' ''eth_chainId''))"
    and t1: "\<not> Connector_IsMethodIgnored (conn ?ttl) (store ?w1)
               (Method (sampleRpcRequest ''2'' ''eth_chainId''))"
    by (simp_all add: sample_defs)
  note get_plain = no_block_scope_gate[OF r n1, where ext = ?ext]
  note set_plain = no_block_scope_gate[OF r n0, where ext = ?ext and resp = ?resp
      and rpcResp = "Some ?jrr"]
  note set_ttl = no_block_scope_gate[OF r t0, where ext = ?ext and resp = ?resp
      and jrr = ?jrr and cacheKey = "''eth_chainId:h''" and bytes = "quoted ''0x1''"
      and merr = None and e = None
      and s' = "[((''evm:1:nil'', ''eth_chainId:h''), quoted ''0x1'')]"]
  note get_ttl = no_block_scope_gate[OF r2 t1, where ext = ?ext
      and cacheKey = "''eth_chainId:h''" and v = "quoted ''0x1''" and gerr = None
      and s = "[((''evm:1:nil'', ''eth_chainId:h''), quoted ''0x1'')]"]
  show ?thesis
    using sc m get_plain set_plain set_ttl get_ttl by (simp add: sample_defs)
qed

text \<open>
  C8. Take a request that parses.

  Read path. When \<open>Get\<close> reaches the storage lookup (the method is not ignored, the
  resolver gives a block reference, neither the block-scope gate nor the finality gate
  stops it, and the keys are derived), it reads the connector exactly once: on the
  reverse index if the block reference is \<open>*\<close> and on the main index otherwise, with the
  group key \<open>networkId:blockRef\<close> (\<open>networkId:nil\<close> for the empty reference) and the
  content hash; its result and store are what that read gives. Conversely, every call of
  the connector's \<open>Get\<close> that a run of \<open>Get\<close> records is on the reverse index if and only
  if the resolved reference is \<open>*\<close>, on the main index if and only if it is not, and has
  the derived keys.

  Write path. When \<open>Set\<close> reaches the storage write (eligible response, gates passed,
  keys derived, result serialised), it calls the connector's \<open>Set\<close>, which takes no
  index, exactly once with the group key for the resolved block reference, whatever that
  reference is (\<open>*\<close> included), the content hash and the serialised result; it returns
  what the connector returns, on the store the connector leaves. Conversely, every call
  of the connector's \<open>Set\<close> that a run of \<open>Set\<close> records has the derived keys, and such a
  run calls neither \<open>Get\<close> nor \<open>Delete\<close> on any index.
\<close>

theorem index_selection:
  assumes "req_JsonRpcRequest req = (Some rpcReq, None)"
  shows
    "(\<not> Connector_IsMethodIgnored (conn c) (store w) (Method rpcReq) \<and>
      ExtractEvmBlockReferenceFromRequest ext rpcReq = (blockRef, blockNumber, None) \<and>
      \<not> (blockRef = '''' \<and> blockNumber = 0 \<and>
         \<not> Connector_HasTTL (conn c) (store w) (Method rpcReq)) \<and>
      (blockNumber = 0 \<or> EvmIsBlockFinalized (network c) blockNumber \<noteq> (False, None)) \<and>
      req_CacheHash req = (cacheKey, None) \<and>
      Connector_Get (conn c) (store w)
        (if blockRef = ''*'' then ConnectorReverseIndex else ConnectorMainIndex)
        (req_NetworkId req @ '':'' @ (if blockRef = '''' then ''nil'' else blockRef))
        cacheKey = ((v, gerr), s) \<longrightarrow>
        Get c ext req w =
          (if gerr \<noteq> None then Return (None, gerr)
           else if v \<in> {[CHR 0x22, CHR 0x22], ''null'', ''[]'', ''{}''} then Return (None, None)
           else Return (Some \<lparr>request = Some req, fromCache = True,
                  jsonRpcResponse = Some \<lparr>JSONRPC = JsonRpcRequest.JSONRPC rpcReq,
                     ID = JsonRpcRequest.ID rpcReq, Error = None, Result = Some v\<rparr>\<rparr>, None),
           \<lparr>store = s,
            trace = trace w @
              [Call_IsMethodIgnored (Method rpcReq), Call_HasTTL (Method rpcReq),
               Call_ExtractEvmBlockReferenceFromRequest] @
              (if blockNumber \<noteq> 0 then [Call_EvmIsBlockFinalized blockNumber] else []) @
              [Call_generateKeysForJsonRpcRequest blockRef,
               Call_Get (if blockRef = ''*'' then ConnectorReverseIndex else ConnectorMainIndex)
                 (req_NetworkId req @ '':'' @ (if blockRef = '''' then ''nil'' else blockRef))
                 cacheKey]\<rparr>)) \<and>
     (ExtractEvmBlockReferenceFromRequest ext rpcReq = (blockRef, blockNumber, err) \<and>
      Call_Get index groupKey requestKey
        \<in> set (drop (length (trace w)) (trace (snd (Get c ext req w)))) \<longrightarrow>
        (index = ConnectorReverseIndex \<longleftrightarrow> blockRef = ''*'') \<and>
        (index = ConnectorMainIndex \<longleftrightarrow> blockRef \<noteq> ''*'') \<and>
        generateKeysForJsonRpcRequest req blockRef = (groupKey, requestKey, None)) \<and>
     (resp_JsonRpcResponse ext resp = (Some jrr, None) \<and>
      \<not> Connector_IsMethodIgnored (conn c) (store w) (Method rpcReq) \<and>
      shouldCache ext req resp rpcReq (Some jrr) = (True, None) \<and>
      ExtractEvmBlockReference ext rpcReq (Some jrr) = (blockRef', blockNumber', None) \<and>
      \<not> (blockRef' = '''' \<and> blockNumber' = 0 \<and>
         \<not> Connector_HasTTL (conn c) (store w) (Method rpcReq)) \<and>
      (Connector_HasTTL (conn c) (store w) (Method rpcReq) \<or> \<not> 0 <s blockNumber' \<or>
       EvmIsBlockFinalized (network c) blockNumber' = (True, None)) \<and>
      req_CacheHash req = (cacheKey, None) \<and>
      Marshal ext (Result jrr) = (bytes, None) \<and>
      Connector_Set (conn c) (store w)
        (req_NetworkId req @ '':'' @ (if blockRef' = '''' then ''nil'' else blockRef'))
        cacheKey bytes = (e, s') \<longrightarrow>
        Set c ext req resp w =
          (Return e,
           \<lparr>store = s',
            trace = trace w @
              [Call_IsMethodIgnored (Method rpcReq), Call_shouldCache,
               Call_ExtractEvmBlockReference, Call_HasTTL (Method rpcReq)] @
              (if \<not> Connector_HasTTL (conn c) (store w) (Method rpcReq) \<and> 0 <s blockNumber'
               then [Call_EvmIsBlockFinalized blockNumber'] else []) @
              [Call_generateKeysForJsonRpcRequest blockRef',
               Call_Set (req_NetworkId req @ '':'' @ (if blockRef' = '''' then ''nil'' else blockRef'))
                 cacheKey bytes]\<rparr>)) \<and>
     (resp_JsonRpcResponse ext resp = (rpcResp, None) \<and>
      ExtractEvmBlockReference ext rpcReq rpcResp = (blockRef', blockNumber', err') \<and>
      Call_Set pk rk written
        \<in> set (drop (length (trace w)) (trace (snd (Set c ext req resp w)))) \<longrightarrow>
        generateKeysForJsonRpcRequest req blockRef' = (pk, rk, None) \<and>
        (\<forall>i g k. Call_Get i g k \<notin> set (drop (length (trace w)) (trace (snd (Set c ext req resp w)))) \<and>
                 Call_Delete i g k \<notin> set (drop (length (trace w)) (trace (snd (Set c ext req resp w))))))"
proof -
  have A: "Get c ext req w =
          (if gerr \<noteq> None then Return (None, gerr)
           else if v \<in> {[CHR 0x22, CHR 0x22], ''null'', ''[]'', ''{}''} then Return (None, None)
           else Return (Some \<lparr>request = Some req, fromCache = True,
                  jsonRpcResponse = Some \<lparr>JSONRPC = JsonRpcRequest.JSONRPC rpcReq,
                     ID = JsonRpcRequest.ID rpcReq, Error = None, Result = Some v\<rparr>\<rparr>, None),
           \<lparr>store = s,
            trace = trace w @
              [Call_IsMethodIgnored (Method rpcReq), Call_HasTTL (Method rpcReq),
               Call_ExtractEvmBlockReferenceFromRequest] @
              (if blockNumber \<noteq> 0 then [Call_EvmIsBlockFinalized blockNumber] else []) @
              [Call_generateKeysForJsonRpcRequest blockRef,
               Call_Get (if blockRef = ''*'' then ConnectorReverseIndex else ConnectorMainIndex)
                 (req_NetworkId req @ '':'' @ (if blockRef = '''' then ''nil'' else blockRef))
                 cacheKey]\<rparr>)"
    if "\<not> Connector_IsMethodIgnored (conn c) (store w) (Method rpcReq)"
      and "ExtractEvmBlockReferenceFromRequest ext rpcReq = (blockRef, blockNumber, None)"
      and "\<not> (blockRef = '''' \<and> blockNumber = 0 \<and>
         \<not> Connector_HasTTL (conn c) (store w) (Method rpcReq))"
      and "blockNumber = 0 \<or> EvmIsBlockFinalized (network c) blockNumber \<noteq> (False, None)"
      and "req_CacheHash req = (cacheKey, None)"
      and "Connector_Get (conn c) (store w)
        (if blockRef = ''*'' then ConnectorReverseIndex else ConnectorMainIndex)
        (req_NetworkId req @ '':'' @ (if blockRef = '''' then ''nil'' else blockRef))
        cacheKey = ((v, gerr), s)"
    by (rule Get_run[OF assms that])
  have C: "Set c ext req resp w =
          (Return e,
           \<lparr>store = s',
            trace = trace w @
              [Call_IsMethodIgnored (Method rpcReq), Call_shouldCache,
               Call_ExtractEvmBlockReference, Call_HasTTL (Method rpcReq)] @
              (if \<not> Connector_HasTTL (conn c) (store w) (Method rpcReq) \<and> 0 <s blockNumber'
               then [Call_EvmIsBlockFinalized blockNumber'] else []) @
              [Call_generateKeysForJsonRpcRequest blockRef',
               Call_Set (req_NetworkId req @ '':'' @ (if blockRef' = '''' then ''nil'' else blockRef'))
                 cacheKey bytes]\<rparr>)"
    if "resp_JsonRpcResponse ext resp = (Some jrr, None)"
      and "\<not> Connector_IsMethodIgnored (conn c) (store w) (Method rpcReq)"
      and "shouldCache ext req resp rpcReq (Some jrr) = (True, None)"
      and "ExtractEvmBlockReference ext rpcReq (Some jrr) = (blockRef', blockNumber', None)"
      and "\<not> (blockRef' = '''' \<and> blockNumber' = 0 \<and>
         \<not> Connector_HasTTL (conn c) (store w) (Method rpcReq))"
      and "Connector_HasTTL (conn c) (store w) (Method rpcReq) \<or> \<not> 0 <s blockNumber' \<or>
       EvmIsBlockFinalized (network c) blockNumber' = (True, None)"
      and "req_CacheHash req = (cacheKey, None)"
      and "Marshal ext (Result jrr) = (bytes, None)"
      and "Connector_Set (conn c) (store w)
        (req_NetworkId req @ '':'' @ (if blockRef' = '''' then ''nil'' else blockRef'))
        cacheKey bytes = (e, s')"
    by (rule Set_run[OF assms that])
  note BD = calls_on_selected_index[OF assms, of ext blockRef blockNumber err index groupKey
      requestKey w c resp rpcResp blockRef' blockNumber' err' pk rk written]
  show ?thesis
    apply (intro conjI)
    subgoal using A by blast
    subgoal using BD by blast
    subgoal using C by blast
    subgoal using BD by blast
    done
qed

text \<open>A raw transaction stored under the group of its block, \<open>evm:1:0x64\<close>. A request
  that does not know the block resolves to \<open>*\<close>: \<open>Get\<close> reads the reverse index and finds
  the entry by its content hash alone, where the main index under \<open>evm:1:*\<close> has nothing.
  A request that resolves to the block reads the main index under \<open>evm:1:0x64\<close>. A \<open>Set\<close>
  whose reference resolves to \<open>*\<close> writes under \<open>evm:1:*\<close>, and one whose reference
  resolves to the finalized block writes under \<open>evm:1:0x64\<close>.\<close>

theorem index_selection_witness:
  "Get (memCache [] [] (True, None)) (sampleExternals (''*'', 0, None))
     (sampleRequest ''2'' ''eth_getRawTransactionByHash'' (0, None))
     \<lparr>store = [((''evm:1:0x64'', ''eth_getRawTransactionByHash:h''), quoted ''0xf86c'')],
      trace = []\<rparr>
     = (Return
          (Some \<lparr>request = Some (sampleRequest ''2'' ''eth_getRawTransactionByHash'' (0, None)),
                 fromCache = True,
                 jsonRpcResponse =
                   Some \<lparr>JSONRPC = ''2.0'', ID = ''2'', Error = None,
                         Result = Some (quoted ''0xf86c'')\<rparr>\<rparr>,
           None),
        \<lparr>store = [((''evm:1:0x64'', ''eth_getRawTransactionByHash:h''), quoted ''0xf86c'')],
         trace = [Call_IsMethodIgnored ''eth_getRawTransactionByHash'',
                  Call_HasTTL ''eth_getRawTransactionByHash'',
                  Call_ExtractEvmBlockReferenceFromRequest,
                  Call_generateKeysForJsonRpcRequest ''*'',
                  Call_Get ConnectorReverseIndex ''evm:1:*'' ''eth_getRawTransactionByHash:h'']\<rparr>) \<and>
   Connector_Get (conn (memCache [] [] (True, None)))
     [((''evm:1:0x64'', ''eth_getRawTransactionByHash:h''), quoted ''0xf86c'')]
     ConnectorMainIndex ''evm:1:*'' ''eth_getRawTransactionByHash:h''
     = (('''', Some (ErrorMsg ''record not found'')),
        [((''evm:1:0x64'', ''eth_getRawTransactionByHash:h''), quoted ''0xf86c'')]) \<and>
   Get (memCache [] [] (True, None)) (sampleExternals (''0x64'', 100, None))
     (sampleRequest ''2'' ''eth_getRawTransactionByHash'' (100, None))
     \<lparr>store = [((''evm:1:0x64'', ''eth_getRawTransactionByHash:h''), quoted ''0xf86c'')],
      trace = []\<rparr>
     = (Return
          (Some \<lparr>request = Some (sampleRequest ''2'' ''eth_getRawTransactionByHash'' (100, None)),
                 fromCache = True,
                 jsonRpcResponse =
                   Some \<lparr>JSONRPC = ''2.0'', ID = ''2'', Error = None,
                         Result = Some (quoted ''0xf86c'')\<rparr>\<rparr>,
           None),
        \<lparr>store = [((''evm:1:0x64'', ''eth_getRawTransactionByHash:h''), quoted ''0xf86c'')],
         trace = [Call_IsMethodIgnored ''eth_getRawTransactionByHash'',
                  Call_HasTTL ''eth_getRawTransactionByHash'',
                  Call_ExtractEvmBlockReferenceFromRequest,
                  Call_EvmIsBlockFinalized 100,
                  Call_generateKeysForJsonRpcRequest ''0x64'',
                  Call_Get ConnectorMainIndex ''evm:1:0x64'' ''eth_getRawTransactionByHash:h'']\<rparr>) \<and>
   Marshal (sampleExternals (''*'', 0, None)) (Result (sampleRpcResponse (Some (quoted ''0xf86c''))))
     = (quoted ''0xf86c'', None) \<and>
   Set (memCache [] [] (True, None)) (sampleExternals (''*'', 0, None))
     (sampleRequest ''1'' ''eth_getRawTransactionByHash'' (0, None))
     (Some (sampleResponse (Some (quoted ''0xf86c''))))
     \<lparr>store = [], trace = []\<rparr>
     = (Return None,
        \<lparr>store = [((''evm:1:*'', ''eth_getRawTransactionByHash:h''), quoted ''0xf86c'')],
         trace = [Call_IsMethodIgnored ''eth_getRawTransactionByHash'', Call_shouldCache,
                  Call_ExtractEvmBlockReference, Call_HasTTL ''eth_getRawTransactionByHash'',
                  Call_generateKeysForJsonRpcRequest ''*'',
                  Call_Set ''evm:1:*'' ''eth_getRawTransactionByHash:h'' (quoted ''0xf86c'')]\<rparr>) \<and>
   Set (memCache [] [] (True, None)) (sampleExternals (''0x64'', 100, None))
     (sampleRequest ''1'' ''eth_getRawTransactionByHash'' (100, None))
     (Some (sampleResponse (Some (quoted ''0xf86c''))))
     \<lparr>store = [], trace = []\<rparr>
     = (Return None,
        \<lparr>store = [((''evm:1:0x64'', ''eth_getRawTransactionByHash:h''), quoted ''0xf86c'')],
         trace = [Call_IsMethodIgnored ''eth_getRawTransactionByHash'', Call_shouldCache,
                  Call_ExtractEvmBlockReference, Call_HasTTL ''eth_getRawTransactionByHash'',
                  Call_EvmIsBlockFinalized 100,
                  Call_generateKeysForJsonRpcRequest ''0x64'',
                  Call_Set ''evm:1:0x64'' ''eth_getRawTransactionByHash:h'' (quoted ''0xf86c'')]\<rparr>)"
proof -
  let ?wild = "sampleExternals (''*'', 0, None)"
  let ?blk = "sampleExternals (''0x64'', 100, None)"
  let ?req0 = "sampleRequest ''1'' ''eth_getRawTransactionByHash'' (0, None)"
  let ?req1 = "sampleRequest ''1'' ''eth_getRawTransactionByHash'' (100, None)"
  let ?get0 = "sampleRequest ''2'' ''eth_getRawTransactionByHash'' (0, None)"
  let ?get1 = "sampleRequest ''2'' ''eth_getRawTransactionByHash'' (100, None)"
  let ?resp = "Some (sampleResponse (Some (quoted ''0xf86c'')))"
  let ?jrr = "sampleRpcResponse (Some (quoted ''0xf86c''))"
  let ?c = "memCache [] [] (True, None)"
  let ?w0 = "\<lparr>store = [] :: memStore, trace = []\<rparr>"
  let ?w1 = "\<lparr>store = [((''evm:1:0x64'', ''eth_getRawTransactionByHash:h''), quoted ''0xf86c'')]
               :: memStore, trace = []\<rparr>"
  have r0: "req_JsonRpcRequest ?req0
              = (Some (sampleRpcRequest ''1'' ''eth_getRawTransactionByHash''), None)"
    and r1: "req_JsonRpcRequest ?req1
              = (Some (sampleRpcRequest ''1'' ''eth_getRawTransactionByHash''), None)"
    and g0: "req_JsonRpcRequest ?get0
              = (Some (sampleRpcRequest ''2'' ''eth_getRawTransactionByHash''), None)"
    and g1: "req_JsonRpcRequest ?get1
              = (Some (sampleRpcRequest ''2'' ''eth_getRawTransactionByHash''), None)"
    by (simp_all add: sample_defs)
  have pos: "0 <s (100 :: int64)" by (simp add: word_sless_alt)
  have m: "Marshal ?wild (Result ?jrr) = (quoted ''0xf86c'', None)"
    by (simp add: sample_defs)
  have miss: "Connector_Get (conn ?c) (store ?w1) ConnectorMainIndex ''evm:1:*''
                ''eth_getRawTransactionByHash:h''
              = (('''', Some (ErrorMsg ''record not found'')), store ?w1)"
    by (simp add: sample_defs)
  note get_wild = index_selection[OF g0, where ext = ?wild and c = ?c
      and w = ?w1 and blockRef = "''*''" and blockNumber = 0
      and cacheKey = "''eth_getRawTransactionByHash:h''" and v = "quoted ''0xf86c''"
      and gerr = None and s = "store ?w1", THEN conjunct1]
  note get_blk = index_selection[OF g1, where ext = ?blk and c = ?c
      and w = ?w1 and blockRef = "''0x64''" and blockNumber = 100
      and cacheKey = "''eth_getRawTransactionByHash:h''" and v = "quoted ''0xf86c''"
      and gerr = None and s = "store ?w1", THEN conjunct1]
  note set_wild = index_selection[OF r0,
      where ext = ?wild and c = ?c and w = ?w0 and resp = ?resp and jrr = ?jrr
      and blockRef' = "''*''" and blockNumber' = 0
      and cacheKey = "''eth_getRawTransactionByHash:h''" and bytes = "quoted ''0xf86c''"
      and e = None
      and s' = "[((''evm:1:*'', ''eth_getRawTransactionByHash:h''), quoted ''0xf86c'')]",
      THEN conjunct2, THEN conjunct2, THEN conjunct1]
  note set_blk = index_selection[OF r1,
      where ext = ?blk and c = ?c and w = ?w0 and resp = ?resp and jrr = ?jrr
      and blockRef' = "''0x64''" and blockNumber' = 100
      and cacheKey = "''eth_getRawTransactionByHash:h''" and bytes = "quoted ''0xf86c''"
      and e = None
      and s' = "[((''evm:1:0x64'', ''eth_getRawTransactionByHash:h''), quoted ''0xf86c'')]",
      THEN conjunct2, THEN conjunct2, THEN conjunct1]
  show ?thesis
    using pos m miss get_wild get_blk set_wild set_blk
    by (simp add: sample_defs shouldCache_def noResultOrError_def)
qed

text \<open>
  C9. If a run of \<open>Get\<close> calls the connector's \<open>Get\<close>, and the connector answers that
  call without error with one of the strings \<open>""\<close> (two quote characters), \<open>null\<close>,
  \<open>[]\<close>, \<open>{}\<close>, then \<open>Get\<close> returns \<open>(nil, nil)\<close>: no response is built from the value.
\<close>

theorem defensive_emptiness:
  assumes "Call_Get index groupKey requestKey
             \<in> set (drop (length (trace w)) (trace (snd (Get c ext req w))))"
    and "Connector_Get (conn c) (store w) index groupKey requestKey = ((v, None), s)"
    and "v \<in> {[CHR 0x22, CHR 0x22], ''null'', ''[]'', ''{}''}"
  shows "fst (Get c ext req w) = Return (None, None)"
proof -
  have "\<exists>rpcReq. req_JsonRpcRequest req = (Some rpcReq, None)"
    using assms(1) by (auto simp: Get_def split: prod.splits option.splits)
  then obtain rpcReq where p: "req_JsonRpcRequest req = (Some rpcReq, None)" by blast
  obtain blockRef blockNumber err
    where x: "ExtractEvmBlockReferenceFromRequest ext rpcReq = (blockRef, blockNumber, err)"
    by (metis prod_cases3)
  from Get_cases[OF p x, of c w] show ?thesis
  proof (elim disjE exE conjE)
    fix r evs
    assume "Get c ext req w = (Return (None, r), w\<lparr>trace := trace w @ evs\<rparr>)"
      "\<forall>i g k. Call_Get i g k \<notin> set evs"
    with assms(1) show ?thesis by simp
  next
    fix evs
    let ?w = "w\<lparr>trace := trace w @ evs\<rparr>"
    assume g: "Get c ext req w = Get_lookup c req rpcReq blockRef ?w"
      and n: "\<forall>i g k. Call_Get i g k \<notin> set evs"
    obtain gk rk e where k: "generateKeysForJsonRpcRequest req blockRef = (gk, rk, e)"
      by (metis prod_cases3)
    show ?thesis
    proof (cases e)
      case None
      obtain v' er s' where cg: "Connector_Get (conn c) (store ?w)
           (if blockRef = ''*'' then ConnectorReverseIndex else ConnectorMainIndex) gk rk
             = ((v', er), s')"
        by (metis surj_pair)
      note run = Get_lookup_run[OF k[unfolded None] cg, of rpcReq]
      from run g assms(1) n
      have same: "index = (if blockRef = ''*'' then ConnectorReverseIndex else ConnectorMainIndex)"
        "groupKey = gk" "requestKey = rk"
        by (auto split: if_splits)
      with cg assms(2) have "v' = v" "er = None" by simp_all
      with run g assms(3) show ?thesis by auto
    next
      case (Some a)
      from Get_lookup_keys_error[OF k[unfolded Some], of c rpcReq ?w] g assms(1) n
      show ?thesis by auto
    qed
  qed
qed

text \<open>A stored \<open>[]\<close> for \<open>eth_getLogs\<close> is a miss.\<close>

theorem defensive_emptiness_witness:
  "Call_Get ConnectorMainIndex ''evm:1:0x64'' ''eth_getLogs:h''
     \<in> set (drop (length (trace \<lparr>store = [((''evm:1:0x64'', ''eth_getLogs:h''), ''[]'')], trace = []\<rparr>))
           (trace (snd (Get (memCache [] [] (True, None)) (sampleExternals (''0x64'', 100, None))
              (sampleRequest ''1'' ''eth_getLogs'' (100, None))
              \<lparr>store = [((''evm:1:0x64'', ''eth_getLogs:h''), ''[]'')], trace = []\<rparr>)))) \<and>
   Connector_Get (conn (memCache [] [] (True, None)))
     (store \<lparr>store = [((''evm:1:0x64'', ''eth_getLogs:h''), ''[]'')], trace = []\<rparr>)
     ConnectorMainIndex ''evm:1:0x64'' ''eth_getLogs:h''
     = ((''[]'', None), [((''evm:1:0x64'', ''eth_getLogs:h''), ''[]'')]) \<and>
   ''[]'' \<in> {[CHR 0x22, CHR 0x22], ''null'', ''[]'', ''{}''} \<and>
   fst (Get (memCache [] [] (True, None)) (sampleExternals (''0x64'', 100, None))
          (sampleRequest ''1'' ''eth_getLogs'' (100, None))
          \<lparr>store = [((''evm:1:0x64'', ''eth_getLogs:h''), ''[]'')], trace = []\<rparr>)
     = Return (None, None)"
proof -
  let ?w = "\<lparr>store = [((''evm:1:0x64'', ''eth_getLogs:h''), ''[]'')] :: memStore, trace = []\<rparr>"
  let ?c = "memCache [] [] (True, None)"
  have g: "Call_Get ConnectorMainIndex ''evm:1:0x64'' ''eth_getLogs:h''
     \<in> set (drop (length (trace ?w))
           (trace (snd (Get ?c (sampleExternals (''0x64'', 100, None))
              (sampleRequest ''1'' ''eth_getLogs'' (100, None)) ?w))))"
    by (simp add: sample_defs run_defs)
  have l: "Connector_Get (conn ?c) (store ?w) ConnectorMainIndex ''evm:1:0x64'' ''eth_getLogs:h''
     = ((''[]'', None), [((''evm:1:0x64'', ''eth_getLogs:h''), ''[]'')])"
    by (simp add: sample_defs)
  have e: "''[]'' \<in> {[CHR 0x22, CHR 0x22], ''null'', ''[]'', ''{}''}" by simp
  from defensive_emptiness[OF g l e] g l e show ?thesis by blast
qed

text \<open>
  C10. \<open>DeleteByGroupKey\<close> calls \<open>Connector.Delete\<close> on the main index with each group
  key in order and the empty request key. For no keys it returns \<open>nil\<close> and makes no
  call. If the keys \<open>deleted\<close> have gone without error and the deletion of the next key
  succeeds, the run over \<open>deleted @ [groupKey]\<close> returns \<open>nil\<close> after exactly those
  calls, on the state the last deletion left. If the deletion of the next key fails, the
  run returns that error after exactly the calls up to this key, whatever keys come after
  it: the remaining deletions are not attempted.
\<close>

theorem DeleteByGroupKey_in_order:
  "DeleteByGroupKey c [] w = (None, w) \<and>
   (\<forall>deleted groupKey w1 s2.
      DeleteByGroupKey c deleted w = (None, w1) \<and>
      Connector_Delete (conn c) (store w1) ConnectorMainIndex groupKey '''' = (None, s2) \<longrightarrow>
      DeleteByGroupKey c (deleted @ [groupKey]) w =
        (None, \<lparr>store = s2,
                trace = trace w @
                  map (\<lambda>k. Call_Delete ConnectorMainIndex k '''') (deleted @ [groupKey])\<rparr>)) \<and>
   (\<forall>deleted groupKey rest w1 err s2.
      DeleteByGroupKey c deleted w = (None, w1) \<and>
      Connector_Delete (conn c) (store w1) ConnectorMainIndex groupKey '''' = (Some err, s2) \<longrightarrow>
      DeleteByGroupKey c (deleted @ groupKey # rest) w =
        (Some err, \<lparr>store = s2,
                    trace = trace w @
                      map (\<lambda>k. Call_Delete ConnectorMainIndex k '''') (deleted @ [groupKey])\<rparr>))"
  by (auto simp: DeleteByGroupKey_append conn_Delete_def emit_def
      dest!: DeleteByGroupKey_trace)

text \<open>A run over three groups on a store that holds only the first: the second deletion
  fails and the third is not attempted.\<close>

theorem DeleteByGroupKey_in_order_witness:
  "DeleteByGroupKey (memCache [] [] (True, None)) [''evm:1:0xa''] \<lparr>store = [((''evm:1:0xa'', ''k''), ''1'')], trace = []\<rparr>
     = (None, \<lparr>store = [], trace = [Call_Delete ConnectorMainIndex ''evm:1:0xa'' '''']\<rparr>) \<and>
   Connector_Delete (conn (memCache [] [] (True, None))) [] ConnectorMainIndex ''evm:1:0xb'' ''''
     = (Some (ErrorMsg ''group not found''), []) \<and>
   DeleteByGroupKey (memCache [] [] (True, None)) [''evm:1:0xa'', ''evm:1:0xb'', ''evm:1:0xc'']
       \<lparr>store = [((''evm:1:0xa'', ''k''), ''1'')], trace = []\<rparr>
     = (Some (ErrorMsg ''group not found''),
        \<lparr>store = [], trace = [Call_Delete ConnectorMainIndex ''evm:1:0xa'' '''',
                               Call_Delete ConnectorMainIndex ''evm:1:0xb'' '''']\<rparr>)"
proof -
  let ?c = "memCache [] [] (True, None)"
  let ?w = "\<lparr>store = [((''evm:1:0xa'', ''k''), ''1'')], trace = []\<rparr> :: memStore world"
  let ?w1 = "\<lparr>store = [], trace = [Call_Delete ConnectorMainIndex ''evm:1:0xa'' '''']\<rparr> :: memStore world"
  have first: "DeleteByGroupKey ?c [''evm:1:0xa''] ?w = (None, ?w1)"
    by (simp add: sample_defs call_defs)
  have second: "Connector_Delete (conn ?c) (store ?w1) ConnectorMainIndex ''evm:1:0xb'' ''''
                  = (Some (ErrorMsg ''group not found''), [])"
    by (simp add: sample_defs)
  from DeleteByGroupKey_in_order[of ?c ?w] first second
  have "DeleteByGroupKey ?c ([''evm:1:0xa''] @ ''evm:1:0xb'' # [''evm:1:0xc'']) ?w =
          (Some (ErrorMsg ''group not found''),
           \<lparr>store = [], trace = trace ?w @
              map (\<lambda>k. Call_Delete ConnectorMainIndex k '''') ([''evm:1:0xa''] @ [''evm:1:0xb''])\<rparr>)"
    by blast
  with first second show ?thesis by simp
qed

end
